theory Spec2Isabelle
  imports Main "HOL-Library.Word"
begin

unbundle bit_operations_syntax

section \<open>Data model\<close>

text \<open>
  The sources are \<^verbatim>\<open>packages/btc/src/transaction/utxo.ts\<close> (lines 1-158) and the
  address module that follows it in the same file (lines 159-397). A \<^verbatim>\<open>Buffer\<close> is a
  list of bytes; a JavaScript \<^verbatim>\<open>number\<close> that counts satoshis or indexes an output is
  a natural number; an optional property is an \<open>option\<close>.
\<close>

type_synonym bytes = "8 word list"

datatype AddressType = P2PKH | P2WPKH | P2TR | P2SH_P2WPKH | P2WSH | P2SH | UNKNOWN

text \<open>
  Modelled from the spec: the enum \<^verbatim>\<open>NetworkType\<close> of \<^verbatim>\<open>./preset/types\<close>, whose
  source is not at hand; the spec lists its members as MAINNET, TESTNET, REGTEST.
\<close>

datatype NetworkType = MAINNET | TESTNET | REGTEST

text \<open>
  Modelled from the spec: \<^verbatim>\<open>ErrorCodes\<close> and \<^verbatim>\<open>TxBuildError\<close> of \<^verbatim>\<open>../error\<close>, whose
  source is not at hand. A \<^verbatim>\<open>TxBuildError\<close> carries its code and, when built by
  \<^verbatim>\<open>withComment\<close>, the comment. \<open>TypeError\<close> stands for what bitcoinjs-lib throws,
  \<open>SourceError\<close> for what the data source throws.
\<close>

datatype ErrorCodes =
  MISSING_PUBKEY | UNSUPPORTED_ADDRESS_TYPE | UNSUPPORTED_NETWORK_TYPE | UNCONFIRMED_UTXO

datatype error =
    TxBuildError ErrorCodes "string option"
  | TypeError string
  | SourceError string

record Utxo =
  txid :: string
  vout :: nat
  utxo_value :: nat
  scriptPk :: string
  utxo_addressType :: AddressType
  address :: string
  pubkey :: "string option"

record WitnessUtxo =
  witness_value :: nat
  script :: bytes

record TxInputData =
  hash :: string
  index :: nat
  witnessUtxo :: WitnessUtxo
  tapInternalKey :: "bytes option"
  redeemScript :: "bytes option"

record TxInput =
  data :: TxInputData
  utxo :: Utxo

record DecodedAddress =
  networkType :: NetworkType
  addressType :: AddressType
  dust :: nat

section \<open>The bitcoinjs-lib interface\<close>

text \<open>
  \<^verbatim>\<open>bitcoin\<close> is bitcoinjs-lib, an external library. The code reaches it through
  \<^verbatim>\<open>bitcoin.address\<close>, \<^verbatim>\<open>bitcoin.payments\<close> and \<^verbatim>\<open>bitcoin.networks\<close>. The record
  below holds the primitives behind those calls; a call that throws returns \<open>Inl\<close>.
\<close>

record Network =
  bech32 :: string
  pubKeyHash :: nat
  scriptHash :: nat

record Base58CheckResult =
  base58_hash :: bytes
  base58_version :: nat

record Bech32Result =
  bech32_version :: nat
  bech32_prefix :: string
  bech32_data :: bytes

record bitcoin =
  isPoint :: "bytes \<Rightarrow> bool"
  hash160 :: "bytes \<Rightarrow> bytes"
  tweakKey :: "bytes \<Rightarrow> bytes option"
  toBase58Check :: "bytes \<Rightarrow> nat \<Rightarrow> error + string"
  fromBase58Check :: "string \<Rightarrow> error + Base58CheckResult"
  toBech32 :: "bytes \<Rightarrow> nat \<Rightarrow> string \<Rightarrow> error + string"
  fromBech32 :: "string \<Rightarrow> error + Bech32Result"

text \<open>The three entries of \<^verbatim>\<open>bitcoin.networks\<close> (the fields the code reads).\<close>

definition networks_bitcoin :: Network where
  "networks_bitcoin = \<lparr>bech32 = ''bc'', pubKeyHash = 0x00, scriptHash = 0x05\<rparr>"

definition networks_testnet :: Network where
  "networks_testnet = \<lparr>bech32 = ''tb'', pubKeyHash = 0x6f, scriptHash = 0xc4\<rparr>"

definition networks_regtest :: Network where
  "networks_regtest = \<lparr>bech32 = ''bcrt'', pubKeyHash = 0x6f, scriptHash = 0xc4\<rparr>"

text \<open>
  Modelled from the spec: \<^verbatim>\<open>networkTypeToNetwork\<close> of \<^verbatim>\<open>./preset/network\<close>, whose
  source is not at hand. The network type selects the prefix table. The helper has a
  table for MAINNET and for TESTNET; for any other network type it throws
  \<^verbatim>\<open>UNSUPPORTED_NETWORK_TYPE\<close>, so REGTEST has no table here, although \<^verbatim>\<open>decodeAddress\<close>
  reads \<^verbatim>\<open>bitcoin.networks.regtest\<close> itself.
\<close>

fun networkTypeToNetwork :: "NetworkType \<Rightarrow> error + Network" where
  "networkTypeToNetwork MAINNET = Inr networks_bitcoin"
| "networkTypeToNetwork TESTNET = Inr networks_testnet"
| "networkTypeToNetwork REGTEST = Inl (TxBuildError UNSUPPORTED_NETWORK_TYPE None)"

section \<open>Strings and buffers\<close>

definition startsWith :: "string \<Rightarrow> string \<Rightarrow> bool" where
  "startsWith s p = (take (length p) s = p)"

text \<open>
  \<^verbatim>\<open>Buffer.from(s, 'hex')\<close> of Node.js: two hex digits give one byte, and decoding
  stops at the first pair that is not two hex digits (a trailing single digit is
  dropped). It never throws.
\<close>

definition hexDigit :: "char \<Rightarrow> nat option" where
  "hexDigit c =
     (let n = (of_char c :: nat) in
      if 48 \<le> n \<and> n \<le> 57 then Some (n - 48)
      else if 97 \<le> n \<and> n \<le> 102 then Some (n - 87)
      else if 65 \<le> n \<and> n \<le> 70 then Some (n - 55)
      else None)"

fun Buffer_from_hex :: "string \<Rightarrow> bytes" where
  "Buffer_from_hex (a # b # rest) =
     (case hexDigit a of
        None \<Rightarrow> []
      | Some x \<Rightarrow>
          (case hexDigit b of
             None \<Rightarrow> []
           | Some y \<Rightarrow> of_nat (16 * x + y) # Buffer_from_hex rest))"
| "Buffer_from_hex _ = []"

text \<open>
  Modelled from the spec: \<^verbatim>\<open>remove0x\<close> and \<^verbatim>\<open>toXOnly\<close> of \<^verbatim>\<open>../utils\<close>, whose source is
  not at hand. \<^verbatim>\<open>remove0x\<close> drops a leading \<^verbatim>\<open>0x\<close>; \<^verbatim>\<open>toXOnly\<close> gives the x-only
  (32-byte) form of a public key: a 32-byte key as it is, otherwise bytes 1 to 32.
\<close>

definition remove0x :: "string \<Rightarrow> string" where
  "remove0x hex = (if startsWith hex ''0x'' then drop 2 hex else hex)"

definition toXOnly :: "bytes \<Rightarrow> bytes" where
  "toXOnly pubKey = (if length pubKey = 32 then pubKey else take 32 (drop 1 pubKey))"

text \<open>JavaScript truthiness of an optional string: defined and not empty.\<close>

definition truthy :: "string option \<Rightarrow> bool" where
  "truthy s = (case s of None \<Rightarrow> False | Some x \<Rightarrow> x \<noteq> [])"

section \<open>Payments (bitcoinjs-lib)\<close>

text \<open>
  \<^verbatim>\<open>bitcoin.payments\<close>: each function checks its arguments and throws a
  \<^verbatim>\<open>TypeError\<close> on a key it does not accept. The address of a payment is computed
  when it is read, so reading it is where its encoder can throw.
\<close>

record Payment =
  payment_address :: "error + string"
  payment_output :: "bytes option"

definition payments_p2pkh :: "bitcoin \<Rightarrow> bytes \<Rightarrow> Network \<Rightarrow> error + Payment" where
  "payments_p2pkh lib pk network =
     (if \<not> isPoint lib pk then Inl (TypeError ''Expected property pubkey of type isPoint'')
      else Inr \<lparr>payment_address = toBase58Check lib (hash160 lib pk) (pubKeyHash network),
                payment_output = Some ([0x76, 0xa9, 0x14] @ hash160 lib pk @ [0x88, 0xac])\<rparr>)"

definition payments_p2wpkh :: "bitcoin \<Rightarrow> bytes \<Rightarrow> Network \<Rightarrow> error + Payment" where
  "payments_p2wpkh lib pk network =
     (if \<not> isPoint lib pk then Inl (TypeError ''Expected property pubkey of type isPoint'')
      else if length pk \<noteq> 33 then Inl (TypeError ''Invalid pubkey for p2wpkh'')
      else Inr \<lparr>payment_address = toBech32 lib (hash160 lib pk) 0 (bech32 network),
                payment_output = Some ([0x00, 0x14] @ hash160 lib pk)\<rparr>)"

definition payments_p2tr :: "bitcoin \<Rightarrow> bytes \<Rightarrow> Network \<Rightarrow> error + Payment" where
  "payments_p2tr lib internalPubkey network =
     (if length internalPubkey \<noteq> 32
      then Inl (TypeError ''Expected property internalPubkey of type Buffer(Length: 32)'')
      else
        (case tweakKey lib internalPubkey of
           None \<Rightarrow> Inl (TypeError ''Cannot read properties of null'')
         | Some x \<Rightarrow>
             Inr \<lparr>payment_address = toBech32 lib x 1 (bech32 network),
                  payment_output = Some ([0x51, 0x20] @ x)\<rparr>))"

definition payments_p2sh :: "bitcoin \<Rightarrow> Payment \<Rightarrow> Network \<Rightarrow> error + Payment" where
  "payments_p2sh lib redeem network =
     (case payment_output redeem of
        None \<Rightarrow> Inl (TypeError ''Not enough data'')
      | Some out \<Rightarrow>
          Inr \<lparr>payment_address = toBase58Check lib (hash160 lib out) (scriptHash network),
               payment_output = Some ([0xa9, 0x14] @ hash160 lib out @ [0x87])\<rparr>)"

section \<open>utxo.ts\<close>

definition utxoToInput :: "bitcoin \<Rightarrow> Utxo \<Rightarrow> error + TxInput" where
  "utxoToInput lib u =
     (if utxo_addressType u = P2WPKH then
        Inr \<lparr>data = \<lparr>hash = txid u, index = vout u,
                      witnessUtxo = \<lparr>witness_value = utxo_value u,
                                     script = Buffer_from_hex (remove0x (scriptPk u))\<rparr>,
                      tapInternalKey = None, redeemScript = None\<rparr>,
             utxo = u\<rparr>
      else if utxo_addressType u = P2TR then
        (if \<not> truthy (pubkey u) then Inl (TxBuildError MISSING_PUBKEY (Some (address u)))
         else
           Inr \<lparr>data = \<lparr>hash = txid u, index = vout u,
                         witnessUtxo = \<lparr>witness_value = utxo_value u,
                                        script = Buffer_from_hex (remove0x (scriptPk u))\<rparr>,
                         tapInternalKey =
                           Some (toXOnly (Buffer_from_hex (remove0x (the (pubkey u))))),
                         redeemScript = None\<rparr>,
                utxo = u\<rparr>)
      else if utxo_addressType u = P2SH then
        Inr \<lparr>data = \<lparr>hash = txid u, index = vout u,
                      witnessUtxo = \<lparr>witness_value = utxo_value u,
                                     script = Buffer_from_hex (scriptPk u)\<rparr>,
                      tapInternalKey = None, redeemScript = None\<rparr>,
             utxo = u\<rparr>
      else if utxo_addressType u = P2SH_P2WPKH then
        (if \<not> truthy (pubkey u) then Inl (TxBuildError MISSING_PUBKEY (Some (address u)))
         else
           (case payments_p2wpkh lib (Buffer_from_hex (the (pubkey u))) networks_bitcoin of
              Inl e \<Rightarrow> Inl e
            | Inr redeemData \<Rightarrow>
                Inr \<lparr>data = \<lparr>hash = txid u, index = vout u,
                              witnessUtxo = \<lparr>witness_value = utxo_value u,
                                             script = Buffer_from_hex (scriptPk u)\<rparr>,
                              tapInternalKey = None,
                              redeemScript = payment_output redeemData\<rparr>,
                     utxo = u\<rparr>))
      else Inl (TxBuildError UNSUPPORTED_ADDRESS_TYPE None))"

text \<open>
  \<^verbatim>\<open>fillUtxoPubkey\<close>. The source of the helper \<^verbatim>\<open>isP2trScript\<close> of \<^verbatim>\<open>../script\<close> is not
  at hand: it is the parameter \<open>isP2tr\<close>, which may throw. \<^verbatim>\<open>cloneDeep\<close> copies a value, which is
  the identity here. The map is a \<^verbatim>\<open>Record<string, string>\<close>.
\<close>

record FillOptions =
  options_requirePubkey :: "bool option"

definition fillUtxoPubkey ::
  "(string \<Rightarrow> error + bool) \<Rightarrow> Utxo \<Rightarrow> (string \<rightharpoonup> string) \<Rightarrow> FillOptions option
     \<Rightarrow> error + Utxo" where
  "fillUtxoPubkey isP2tr u pubkeyMap opts =
     (let newUtxo = u in
      case isP2tr (scriptPk newUtxo) of
        Inl e \<Rightarrow> Inl e
      | Inr p2tr \<Rightarrow>
          if p2tr \<and> \<not> truthy (pubkey newUtxo) then
            (let pk = pubkeyMap (address newUtxo) in
             if (case opts of None \<Rightarrow> False | Some opt \<Rightarrow> options_requirePubkey opt = Some True)
                \<and> \<not> truthy pk
             then Inl (TxBuildError MISSING_PUBKEY (Some (address newUtxo)))
             else if truthy pk then Inr (newUtxo\<lparr>pubkey := pk\<rparr>)
             else Inr newUtxo)
          else Inr newUtxo)"

section \<open>address.ts\<close>

definition getAddressTypeDust :: "AddressType \<Rightarrow> nat" where
  "getAddressTypeDust t = (if t = P2WPKH then 294 else if t = P2TR then 330 else 546)"

definition bech32_networkType :: "Bech32Result \<Rightarrow> NetworkType option" where
  "bech32_networkType decodeBech32 =
     (if bech32_prefix decodeBech32 = bech32 networks_bitcoin then Some MAINNET
      else if bech32_prefix decodeBech32 = bech32 networks_testnet then Some TESTNET
      else if bech32_prefix decodeBech32 = bech32 networks_regtest then Some REGTEST
      else None)"

definition bech32_addressType :: "Bech32Result \<Rightarrow> AddressType option" where
  "bech32_addressType decodeBech32 =
     (if bech32_version decodeBech32 = 0 then
        (if length (bech32_data decodeBech32) = 20 then Some P2WPKH
         else if length (bech32_data decodeBech32) = 32 then Some P2WSH
         else None)
      else if bech32_version decodeBech32 = 1 then
        (if length (bech32_data decodeBech32) = 32 then Some P2TR else None)
      else None)"

definition base58_classify :: "Base58CheckResult \<Rightarrow> (NetworkType \<times> AddressType) option" where
  "base58_classify decodeBase58 =
     (if base58_version decodeBase58 = pubKeyHash networks_bitcoin then Some (MAINNET, P2PKH)
      else if base58_version decodeBase58 = pubKeyHash networks_testnet then Some (TESTNET, P2PKH)
      else if base58_version decodeBase58 = pubKeyHash networks_regtest then Some (REGTEST, P2PKH)
      else if base58_version decodeBase58 = scriptHash networks_bitcoin
        then Some (MAINNET, P2SH_P2WPKH)
      else if base58_version decodeBase58 = scriptHash networks_testnet
        then Some (TESTNET, P2SH_P2WPKH)
      else if base58_version decodeBase58 = scriptHash networks_regtest
        then Some (REGTEST, P2SH_P2WPKH)
      else None)"

definition fallback :: DecodedAddress where
  "fallback = \<lparr>networkType = MAINNET, addressType = UNKNOWN, dust = 546\<rparr>"

text \<open>
  \<^verbatim>\<open>decodeAddress\<close>. Each \<^verbatim>\<open>try\<close> block holds one library call; what it throws is
  caught and the function goes on to its last \<^verbatim>\<open>return\<close>. The result is a sum so that
  an error leaving the function would be a value \<open>Inl\<close>.
\<close>

definition decodeAddress :: "bitcoin \<Rightarrow> string \<Rightarrow> error + DecodedAddress" where
  "decodeAddress lib addr =
     (if startsWith addr ''bc1'' \<or> startsWith addr ''tb1'' \<or> startsWith addr ''bcrt1'' then
        (case fromBech32 lib addr of
           Inl e \<Rightarrow> Inr fallback
         | Inr decodeBech32 \<Rightarrow>
             (case (bech32_networkType decodeBech32, bech32_addressType decodeBech32) of
                (Some n, Some t) \<Rightarrow>
                  Inr \<lparr>networkType = n, addressType = t, dust = getAddressTypeDust t\<rparr>
              | _ \<Rightarrow> Inr fallback))
      else
        (case fromBase58Check lib addr of
           Inl e \<Rightarrow> Inr fallback
         | Inr decodeBase58 \<Rightarrow>
             (case base58_classify decodeBase58 of
                Some (n, t) \<Rightarrow>
                  Inr \<lparr>networkType = n, addressType = t, dust = getAddressTypeDust t\<rparr>
              | None \<Rightarrow> Inr fallback)))"

definition publicKeyToPayment ::
  "bitcoin \<Rightarrow> string \<Rightarrow> AddressType \<Rightarrow> NetworkType \<Rightarrow> error + Payment option" where
  "publicKeyToPayment lib publicKey t n =
     (if publicKey = [] then Inr None
      else
        (case networkTypeToNetwork n of
           Inl e \<Rightarrow> Inl e
         | Inr network \<Rightarrow>
             (let pk = Buffer_from_hex (remove0x publicKey) in
              if t = P2PKH then map_sum id Some (payments_p2pkh lib pk network)
              else if t = P2WPKH then map_sum id Some (payments_p2wpkh lib pk network)
              else if t = P2TR then map_sum id Some (payments_p2tr lib (toXOnly pk) network)
              else if t = P2SH_P2WPKH then
                (case payments_p2wpkh lib pk network of
                   Inl e \<Rightarrow> Inl e
                 | Inr redeem \<Rightarrow> map_sum id Some (payments_p2sh lib redeem network))
              else Inr None)))"

definition publicKeyToAddress ::
  "bitcoin \<Rightarrow> string \<Rightarrow> AddressType \<Rightarrow> NetworkType \<Rightarrow> error + string" where
  "publicKeyToAddress lib publicKey t n =
     (case publicKeyToPayment lib publicKey t n of
        Inl e \<Rightarrow> Inl e
      | Inr None \<Rightarrow> Inl (TxBuildError UNSUPPORTED_ADDRESS_TYPE None)
      | Inr (Some payment) \<Rightarrow>
          (case payment_address payment of
             Inl e \<Rightarrow> Inl e
           | Inr a \<Rightarrow>
               if a \<noteq> [] then Inr a else Inl (TxBuildError UNSUPPORTED_ADDRESS_TYPE None)))"

section \<open>Preparing a batch of UTXOs\<close>

text \<open>
  The template literal of the \<^verbatim>\<open>UNCONFIRMED_UTXO\<close> comment prints \<^verbatim>\<open>vout\<close> in decimal.
\<close>

fun numberToString :: "nat \<Rightarrow> string" where
  "numberToString n =
     (if n < 10 then [''0123456789'' ! n]
      else numberToString (n div 10) @ [''0123456789'' ! (n mod 10)])"

declare numberToString.simps [simp del]

text \<open>
  \<^verbatim>\<open>prepareUtxoInputs\<close>. The checks run concurrently: \<^verbatim>\<open>limitPromiseBatchSize\<close> (of
  \<^verbatim>\<open>../utils\<close>) only delays the start of a check, and \<^verbatim>\<open>Promise.all\<close> rejects with the
  rejection that settles first. The parameter \<open>settle\<close> gives the time at which the check
  of the UTXO at each index settles; every schedule is some \<open>settle\<close>.
\<close>

record DataSource =
  isTransactionConfirmed :: "string \<Rightarrow> error + bool"

record PrepareProps =
  utxos :: "Utxo list"
  source :: DataSource
  requirePubkey :: "bool option"
  requireConfirmed :: "bool option"
  pubkeyMap :: "(string \<rightharpoonup> string) option"

fun fillAll ::
  "(string \<Rightarrow> error + bool) \<Rightarrow> (string \<rightharpoonup> string) \<Rightarrow> FillOptions option \<Rightarrow> Utxo list
     \<Rightarrow> error + Utxo list" where
  "fillAll isP2tr m opts [] = Inr []"
| "fillAll isP2tr m opts (u # us) =
     (case fillUtxoPubkey isP2tr u m opts of
        Inl e \<Rightarrow> Inl e
      | Inr u' \<Rightarrow>
          (case fillAll isP2tr m opts us of
             Inl e \<Rightarrow> Inl e
           | Inr us' \<Rightarrow> Inr (u' # us')))"

definition checkConfirmed :: "DataSource \<Rightarrow> Utxo \<Rightarrow> error option" where
  "checkConfirmed src u =
     (case isTransactionConfirmed src (txid u) of
        Inl e \<Rightarrow> Some e
      | Inr transactionConfirmed \<Rightarrow>
          if \<not> transactionConfirmed
          then Some (TxBuildError UNCONFIRMED_UTXO
                 (Some (''hash: '' @ txid u @ '', index: '' @ numberToString (vout u))))
          else None)"

fun firstRejection :: "(nat \<Rightarrow> nat) \<Rightarrow> nat \<Rightarrow> error option list \<Rightarrow> (nat \<times> error) option" where
  "firstRejection settle i [] = None"
| "firstRejection settle i (r # rs) =
     (case r of
        None \<Rightarrow> firstRejection settle (Suc i) rs
      | Some e \<Rightarrow>
          (case firstRejection settle (Suc i) rs of
             None \<Rightarrow> Some (i, e)
           | Some (j, e') \<Rightarrow> if settle i \<le> settle j then Some (i, e) else Some (j, e')))"

definition Promise_all :: "(nat \<Rightarrow> nat) \<Rightarrow> error option list \<Rightarrow> error option" where
  "Promise_all settle rs = map_option snd (firstRejection settle 0 rs)"

definition prepareUtxoInputs ::
  "(string \<Rightarrow> error + bool) \<Rightarrow> (nat \<Rightarrow> nat) \<Rightarrow> PrepareProps \<Rightarrow> error + Utxo list" where
  "prepareUtxoInputs isP2tr settle props =
     (let m = (case pubkeyMap props of None \<Rightarrow> Map.empty | Some pm \<Rightarrow> pm) in
      case fillAll isP2tr m (Some \<lparr>options_requirePubkey = requirePubkey props\<rparr>) (utxos props) of
        Inl e \<Rightarrow> Inl e
      | Inr us \<Rightarrow>
          if requireConfirmed props = Some True then
            (case Promise_all settle (map (checkConfirmed (source props)) us) of
               Some e \<Rightarrow> Inl e
             | None \<Rightarrow> Inr us)
          else Inr us)"

text \<open>
  Modelled from the spec: \<^verbatim>\<open>isP2trScript\<close> of \<^verbatim>\<open>../script\<close>, whose source is not at hand;
  the spec calls its argument "taproot-shaped": the script is \<^verbatim>\<open>OP_1\<close>, a push of 32
  bytes, and the 32 bytes. The theorems on \<^verbatim>\<open>fillUtxoPubkey\<close> and
  \<^verbatim>\<open>prepareUtxoInputs\<close> hold for every \<open>isP2tr\<close>; this one is for running them.
\<close>

definition isP2trScript :: "string \<Rightarrow> error + bool" where
  "isP2trScript s =
     (let b = Buffer_from_hex (remove0x s) in
      Inr (length b = 34 \<and> take 2 b = [0x51, 0x20]))"


text \<open>
  What the branch that \<^verbatim>\<open>decodeAddress\<close> takes assigns to \<^verbatim>\<open>networkType\<close> and
  \<^verbatim>\<open>addressType\<close>; both stay undefined when the library call throws.
\<close>

definition branch_outcome :: "bitcoin \<Rightarrow> string \<Rightarrow> NetworkType option \<times> AddressType option" where
  "branch_outcome lib addr =
     (if startsWith addr ''bc1'' \<or> startsWith addr ''tb1'' \<or> startsWith addr ''bcrt1'' then
        (case fromBech32 lib addr of
           Inl e \<Rightarrow> (None, None)
         | Inr r \<Rightarrow> (bech32_networkType r, bech32_addressType r))
      else
        (case fromBase58Check lib addr of
           Inl e \<Rightarrow> (None, None)
         | Inr r \<Rightarrow> (map_option fst (base58_classify r), map_option snd (base58_classify r))))"


definition unconfirmedError :: "Utxo \<Rightarrow> error" where
  "unconfirmedError u =
     TxBuildError UNCONFIRMED_UTXO
       (Some (''hash: '' @ txid u @ '', index: '' @ numberToString (vout u)))"


section \<open>A model of bitcoinjs-lib\<close>

text \<open>
  The library and what it rests on (bs58check, bech32, the hash functions and the curve
  secp256k1) are external. The definitions of this section follow the published
  algorithms: SHA-256 (FIPS 180-4), RIPEMD-160, Base58Check, Bech32 (BIP 173) and
  Bech32m (BIP 350), and the taproot key tweak (BIP 341). They give the interface record
  a value, \<open>bitcoinjs\<close>, on which the functions above can be run.
\<close>

subsection \<open>Integer roots and byte order\<close>

text \<open>
  The round constants of the two hash functions are leading bits of square and cube
  roots of small primes: \<open>iroot k n\<close> is the integer \<open>k\<close>-th root of \<open>n\<close>, for roots
  below \<open>2 ^ 48\<close>. \<open>be_nat\<close> reads bytes as a big-endian number, \<open>be_bytes k\<close> writes the
  last \<open>k\<close> bytes of one.
\<close>

fun iroot_bits :: "nat \<Rightarrow> nat \<Rightarrow> nat \<Rightarrow> nat \<Rightarrow> nat" where
  "iroot_bits k n 0 r = r"
| "iroot_bits k n (Suc b) r =
     iroot_bits k n b (if (r + 2 ^ b) ^ k \<le> n then r + 2 ^ b else r)"

definition iroot :: "nat \<Rightarrow> nat \<Rightarrow> nat" where
  "iroot k n = iroot_bits k n 48 0"

definition be_nat :: "bytes \<Rightarrow> nat" where
  "be_nat bs = foldl (\<lambda>a b. a * 256 + unat b) 0 bs"

fun be_bytes :: "nat \<Rightarrow> nat \<Rightarrow> bytes" where
  "be_bytes 0 n = []"
| "be_bytes (Suc k) n = be_bytes k (n div 256) @ [of_nat n]"

definition le_bytes :: "nat \<Rightarrow> nat \<Rightarrow> bytes" where
  "le_bytes k n = rev (be_bytes k n)"

fun chunks :: "nat \<Rightarrow> nat \<Rightarrow> 'a list \<Rightarrow> 'a list list" where
  "chunks 0 k xs = []"
| "chunks (Suc m) k xs = take k xs # chunks m k (drop k xs)"

definition blocks :: "nat \<Rightarrow> 'a list \<Rightarrow> 'a list list" where
  "blocks k xs = chunks (length xs div k) k xs"

subsection \<open>SHA-256\<close>

text \<open>
  Padding to blocks of 64 bytes, the message schedule of 64 words, 64 rounds on eight
  words, and the sum with the chaining value; the digest is the eight words, big-endian.
\<close>

definition primes64 :: "nat list" where
  "primes64 =
     [2, 3, 5, 7, 11, 13, 17, 19] @ [23, 29, 31, 37, 41, 43, 47, 53] @
     [59, 61, 67, 71, 73, 79, 83, 89] @ [97, 101, 103, 107, 109, 113, 127, 131] @
     [137, 139, 149, 151, 157, 163, 167, 173] @ [179, 181, 191, 193, 197, 199, 211, 223] @
     [227, 229, 233, 239, 241, 251, 257, 263] @ [269, 271, 277, 281, 283, 293, 307, 311]"

definition sha256_K :: "32 word list" where
  "sha256_K = map (\<lambda>p. of_nat (iroot 3 (p * 2 ^ 96))) primes64"

definition sha256_H0 :: "32 word list" where
  "sha256_H0 = map (\<lambda>p. of_nat (iroot 2 (p * 2 ^ 64))) (take 8 primes64)"

definition rotr :: "nat \<Rightarrow> 32 word \<Rightarrow> 32 word" where
  "rotr n x = drop_bit n x OR push_bit (32 - n) x"

definition rotl :: "nat \<Rightarrow> 32 word \<Rightarrow> 32 word" where
  "rotl n x = push_bit n x OR drop_bit (32 - n) x"

definition sha256_pad :: "bytes \<Rightarrow> bytes" where
  "sha256_pad m =
     m @ [0x80] @ replicate ((64 - (length m + 9) mod 64) mod 64) 0 @ be_bytes 8 (8 * length m)"

fun sha256_schedule :: "nat \<Rightarrow> 32 word list \<Rightarrow> 32 word list" where
  "sha256_schedule 0 w = w"
| "sha256_schedule (Suc n) w =
     (let l = length w;
          a = w ! (l - 15);
          b = w ! (l - 2);
          s0 = rotr 7 a XOR rotr 18 a XOR drop_bit 3 a;
          s1 = rotr 17 b XOR rotr 19 b XOR drop_bit 10 b
      in sha256_schedule n (w @ [w ! (l - 16) + s0 + w ! (l - 7) + s1]))"

fun sha256_round :: "32 word list \<Rightarrow> 32 word \<times> 32 word \<Rightarrow> 32 word list" where
  "sha256_round [a, b, c, d, e, f, g, h] (k, w) =
     (let S1 = rotr 6 e XOR rotr 11 e XOR rotr 25 e;
          ch = (e AND f) XOR (NOT e AND g);
          t1 = h + S1 + ch + k + w;
          S0 = rotr 2 a XOR rotr 13 a XOR rotr 22 a;
          mj = (a AND b) XOR (a AND c) XOR (b AND c);
          t2 = S0 + mj
      in [t1 + t2, a, b, c, d + t1, e, f, g])"
| "sha256_round st kw = st"

definition sha256_block :: "32 word list \<Rightarrow> bytes \<Rightarrow> 32 word list" where
  "sha256_block st blk =
     (let w = sha256_schedule 48 (map (\<lambda>c. of_nat (be_nat c)) (blocks 4 blk))
      in map2 (+) st (foldl sha256_round st (zip sha256_K w)))"

definition sha256 :: "bytes \<Rightarrow> bytes" where
  "sha256 m =
     concat (map (\<lambda>x. be_bytes 4 (unat x)) (foldl sha256_block sha256_H0 (blocks 64 (sha256_pad m))))"


subsection \<open>RIPEMD-160\<close>

text \<open>
  Two lines of 80 steps on five words. The message word of a step follows the
  permutation \<open>rmd_rho\<close> (applied once more in each round) and, on the right line,
  \<open>i \<mapsto> 9 i + 5\<close> first; \<open>rmd_shifts\<close> gives the rotation of each message word in each
  round, one hex digit per word. \<open>lib_hash160\<close> is \<^verbatim>\<open>bcrypto.hash160\<close>.
\<close>

definition rmd_rho :: "nat list" where
  "rmd_rho = [7, 4, 13, 1, 10, 6, 15, 3, 12, 0, 9, 5, 2, 14, 11, 8]"

definition rmd_r :: "nat \<Rightarrow> nat" where
  "rmd_r j = ((\<lambda>i. rmd_rho ! i) ^^ (j div 16)) (j mod 16)"

definition rmd_r' :: "nat \<Rightarrow> nat" where
  "rmd_r' j = ((\<lambda>i. rmd_rho ! i) ^^ (j div 16)) ((9 * (j mod 16) + 5) mod 16)"

definition rmd_shifts :: "string list" where
  "rmd_shifts =
     [''BEFC5879BDEF6798'', ''CDBF6997CFBD7877'', ''DFEB7768DEDC5569'',
      ''EBCE8655FCFE9986'', ''FCDD9586EBCB8655'']"

definition rmd_s :: "nat \<Rightarrow> nat \<Rightarrow> nat" where
  "rmd_s j x = the (hexDigit (rmd_shifts ! (j div 16) ! x))"

definition rmd_K :: "nat \<Rightarrow> 32 word" where
  "rmd_K j = (if j < 16 then 0 else of_nat (iroot 2 ([2, 3, 5, 7] ! (j div 16 - 1) * 2 ^ 60)))"

definition rmd_K' :: "nat \<Rightarrow> 32 word" where
  "rmd_K' j = (if 64 \<le> j then 0 else of_nat (iroot 3 ([2, 3, 5, 7] ! (j div 16) * 2 ^ 90)))"

definition rmd_f :: "nat \<Rightarrow> 32 word \<Rightarrow> 32 word \<Rightarrow> 32 word \<Rightarrow> 32 word" where
  "rmd_f j x y z =
     (if j < 16 then x XOR y XOR z
      else if j < 32 then (x AND y) OR (NOT x AND z)
      else if j < 48 then (x OR NOT y) XOR z
      else if j < 64 then (x AND z) OR (y AND NOT z)
      else x XOR (y OR NOT z))"

fun rmd_step ::
  "32 word list \<Rightarrow> 32 word list \<Rightarrow> nat \<times> nat \<times> nat \<times> 32 word \<Rightarrow> 32 word list" where
  "rmd_step x [a, b, c, d, e] (fj, rj, sj, kj) =
     [e, rotl sj (a + rmd_f fj b c d + x ! rj + kj) + e, b, rotl 10 c, d]"
| "rmd_step x st j = st"

definition rmd_block :: "32 word list \<Rightarrow> bytes \<Rightarrow> 32 word list" where
  "rmd_block h blk =
     (let x = map (\<lambda>c. of_nat (be_nat (rev c))) (blocks 4 blk);
          l = foldl (rmd_step x) h
                (map (\<lambda>j. (j, rmd_r j, rmd_s j (rmd_r j), rmd_K j)) [0..<80]);
          r = foldl (rmd_step x) h
                (map (\<lambda>j. (79 - j, rmd_r' j, rmd_s j (rmd_r' j), rmd_K' j)) [0..<80])
      in [h ! 1 + l ! 2 + r ! 3, h ! 2 + l ! 3 + r ! 4, h ! 3 + l ! 4 + r ! 0,
          h ! 4 + l ! 0 + r ! 1, h ! 0 + l ! 1 + r ! 2])"

definition rmd_pad :: "bytes \<Rightarrow> bytes" where
  "rmd_pad m =
     m @ [0x80] @ replicate ((64 - (length m + 9) mod 64) mod 64) 0 @ le_bytes 8 (8 * length m)"

definition ripemd160 :: "bytes \<Rightarrow> bytes" where
  "ripemd160 m =
     concat (map (\<lambda>x. le_bytes 4 (unat x))
       (foldl rmd_block [0x67452301, 0xEFCDAB89, 0x98BADCFE, 0x10325476, 0xC3D2E1F0]
          (blocks 64 (rmd_pad m))))"

definition lib_hash160 :: "bytes \<Rightarrow> bytes" where
  "lib_hash160 m = ripemd160 (sha256 m)"


subsection \<open>Base58Check\<close>

text \<open>
  \<^verbatim>\<open>bs58check\<close>: the payload, followed by the first four bytes of its double SHA-256,
  written in base 58 with one \<^verbatim>\<open>1\<close> for each leading zero byte.
  \<^verbatim>\<open>address.fromBase58Check\<close> asks for a payload of 21 bytes: the version and the hash.
\<close>

definition base58_alphabet :: string where
  "base58_alphabet = ''123456789ABCDEFGHJKLMNPQRSTUVWXYZabcdefghijkmnopqrstuvwxyz''"

fun indexOf :: "'a list \<Rightarrow> 'a \<Rightarrow> nat option" where
  "indexOf [] c = None"
| "indexOf (x # xs) c = (if x = c then Some 0 else map_option (\<lambda>i. i + 1) (indexOf xs c))"

function digits :: "nat \<Rightarrow> nat \<Rightarrow> nat list" where
  "digits b n = (if n = 0 \<or> b < 2 then [] else digits b (n div b) @ [n mod b])"
  by pat_completeness auto
termination
  by (relation "measure snd") auto

declare digits.simps [simp del]

definition digits_value :: "nat \<Rightarrow> nat list \<Rightarrow> nat" where
  "digits_value b ds = foldl (\<lambda>a d. a * b + d) 0 ds"

definition base58_encode :: "bytes \<Rightarrow> string" where
  "base58_encode bs =
     replicate (length (takeWhile (\<lambda>b. b = 0) bs)) CHR ''1'' @
     map (\<lambda>d. base58_alphabet ! d) (digits 58 (digits_value 256 (map unat bs)))"

definition base58_decode :: "string \<Rightarrow> bytes option" where
  "base58_decode s =
     (if list_all (\<lambda>c. indexOf base58_alphabet c \<noteq> None) s then
        Some (replicate (length (takeWhile (\<lambda>c. c = CHR ''1'') s)) 0 @
              map of_nat (digits 256 (digits_value 58 (map (\<lambda>c. the (indexOf base58_alphabet c)) s))))
      else None)"

definition checksum4 :: "bytes \<Rightarrow> bytes" where
  "checksum4 payload = take 4 (sha256 (sha256 payload))"

definition lib_toBase58Check :: "bytes \<Rightarrow> nat \<Rightarrow> error + string" where
  "lib_toBase58Check h version =
     (if length h \<noteq> 20 \<or> 256 \<le> version then Inl (TypeError ''Expected (Hash160bit, UInt8)'')
      else Inr (base58_encode ((of_nat version # h) @ checksum4 (of_nat version # h))))"

definition lib_fromBase58Check :: "string \<Rightarrow> error + Base58CheckResult" where
  "lib_fromBase58Check s =
     (case base58_decode s of
        None \<Rightarrow> Inl (TypeError ''Non-base58 character'')
      | Some buf \<Rightarrow>
          (let payload = take (length buf - 4) buf in
           if length buf < 4 \<or> drop (length buf - 4) buf \<noteq> checksum4 payload
             then Inl (TypeError ''Invalid checksum'')
           else if length payload < 21 then Inl (TypeError ''address is too short'')
           else if length payload > 21 then Inl (TypeError ''address is too long'')
           else Inr \<lparr>base58_hash = tl payload, base58_version = unat (hd payload)\<rparr>))"

subsection \<open>Bech32 and Bech32m\<close>

text \<open>
  The \<^verbatim>\<open>bech32\<close> package: \<^verbatim>\<open>polymodStep\<close>, \<^verbatim>\<open>prefixChk\<close>, and \<^verbatim>\<open>encode\<close> and
  \<^verbatim>\<open>decode\<close> for either checksum constant (1 for Bech32, \<^verbatim>\<open>0x2bc830a3\<close> for Bech32m);
  \<^verbatim>\<open>toWords\<close> and \<^verbatim>\<open>fromWords\<close> regroup the bits of bytes into 5-bit words and back.
  \<^verbatim>\<open>address.fromBech32\<close> tries Bech32 first and Bech32m when that throws, and takes
  version 0 with Bech32 only, every other version with Bech32m only. For a Bech32m
  string without a data part the library reads an undefined version; the model throws
  there, and \<^verbatim>\<open>decodeAddress\<close> gives its fallback in both cases.
\<close>

definition bech32_charset :: string where
  "bech32_charset = ''qpzry9x8gf2tvdw0s3jn54khce6mua7l''"

definition polymodStep :: "32 word \<Rightarrow> 32 word" where
  "polymodStep pre =
     (let b = drop_bit 25 pre in
      push_bit 5 (pre AND 0x1ffffff) XOR
      (if bit b 0 then 0x3b6a57b2 else 0) XOR
      (if bit b 1 then 0x26508e6d else 0) XOR
      (if bit b 2 then 0x1ea119fa else 0) XOR
      (if bit b 3 then 0x3d4233dd else 0) XOR
      (if bit b 4 then 0x2a1462b3 else 0))"

definition charCode :: "char \<Rightarrow> 32 word" where
  "charCode c = of_nat (of_char c)"

definition prefixChk :: "string \<Rightarrow> error + 32 word" where
  "prefixChk p =
     (if list_all (\<lambda>c. 33 \<le> (of_char c :: nat) \<and> (of_char c :: nat) \<le> 126) p then
        Inr (foldl (\<lambda>chk c. polymodStep chk XOR (charCode c AND 0x1f))
               (polymodStep (foldl (\<lambda>chk c. polymodStep chk XOR drop_bit 5 (charCode c)) 1 p)) p)
      else Inl (TypeError ''Invalid prefix''))"

definition toLowerCase :: "string \<Rightarrow> string" where
  "toLowerCase s =
     map (\<lambda>c. if 65 \<le> (of_char c :: nat) \<and> (of_char c :: nat) \<le> 90
               then char_of ((of_char c :: nat) + 32) else c) s"

definition toUpperCase :: "string \<Rightarrow> string" where
  "toUpperCase s =
     map (\<lambda>c. if 97 \<le> (of_char c :: nat) \<and> (of_char c :: nat) \<le> 122
               then char_of ((of_char c :: nat) - 32) else c) s"

definition polymod :: "32 word \<Rightarrow> nat list \<Rightarrow> 32 word" where
  "polymod chk vs = foldl (\<lambda>chk v. polymodStep chk XOR of_nat v) chk vs"

definition checksumWords :: "32 word \<Rightarrow> nat list" where
  "checksumWords chk = map (\<lambda>i. unat (drop_bit (5 * (5 - i)) chk AND 0x1f)) [0..<6]"

definition dataChars :: "nat list \<Rightarrow> string" where
  "dataChars vs = map (\<lambda>x. bech32_charset ! x) vs"

definition bech32_encode :: "32 word \<Rightarrow> string \<Rightarrow> nat list \<Rightarrow> error + string" where
  "bech32_encode encConst p ws =
     (if length p + 7 + length ws > 90 then Inl (TypeError ''Exceeds length limit'')
      else
        (case prefixChk (toLowerCase p) of
           Inl e \<Rightarrow> Inl e
         | Inr chk0 \<Rightarrow>
             if list_all (\<lambda>x. x < 32) ws then
               (let chk = (polymodStep ^^ 6) (polymod chk0 ws) XOR encConst
                in Inr (toLowerCase p @ ''1'' @ dataChars (ws @ checksumWords chk)))
             else Inl (TypeError ''Non 5-bit word'')))"

definition lastIndexOf :: "string \<Rightarrow> char \<Rightarrow> nat option" where
  "lastIndexOf s c = map_option (\<lambda>i. length s - 1 - i) (indexOf (rev s) c)"

definition bech32_decode :: "32 word \<Rightarrow> string \<Rightarrow> error + string \<times> nat list" where
  "bech32_decode encConst str0 =
     (if length str0 < 8 then Inl (TypeError ''too short'')
      else if length str0 > 90 then Inl (TypeError ''Exceeds length limit'')
      else if str0 \<noteq> toLowerCase str0 \<and> str0 \<noteq> toUpperCase str0
        then Inl (TypeError ''Mixed-case string'')
      else
        (let str = toLowerCase str0 in
         case lastIndexOf str CHR ''1'' of
           None \<Rightarrow> Inl (TypeError ''No separator character'')
         | Some split \<Rightarrow>
             if split = 0 then Inl (TypeError ''Missing prefix'')
             else
               (let p = take split str; wordChars = drop (split + 1) str in
                if length wordChars < 6 then Inl (TypeError ''Data too short'')
                else
                  (case prefixChk p of
                     Inl e \<Rightarrow> Inl e
                   | Inr chk0 \<Rightarrow>
                       if list_all (\<lambda>c. indexOf bech32_charset c \<noteq> None) wordChars then
                         (let vs = map (\<lambda>c. the (indexOf bech32_charset c)) wordChars in
                          if polymod chk0 vs \<noteq> encConst
                            then Inl (TypeError ''Invalid checksum'')
                          else Inr (p, take (length vs - 6) vs))
                       else Inl (TypeError ''Unknown character'')))))"

fun bits_of :: "nat \<Rightarrow> nat \<Rightarrow> bool list" where
  "bits_of 0 x = []"
| "bits_of (Suc n) x = bits_of n (x div 2) @ [odd x]"

definition of_bits :: "bool list \<Rightarrow> nat" where
  "of_bits bs = foldl (\<lambda>a b. 2 * a + (if b then 1 else 0)) 0 bs"

definition toWords :: "bytes \<Rightarrow> nat list" where
  "toWords bs =
     (let bits = concat (map (\<lambda>b. bits_of 8 (unat b)) bs)
      in map of_bits (blocks 5 (bits @ replicate ((5 - length bits mod 5) mod 5) False)))"

definition fromWords :: "nat list \<Rightarrow> error + bytes" where
  "fromWords ws =
     (let bits = concat (map (bits_of 5) ws); extra = length bits mod 8 in
      if 5 \<le> extra then Inl (TypeError ''Excess padding'')
      else if True \<in> set (drop (length bits - extra) bits) then Inl (TypeError ''Non-zero padding'')
      else Inr (map (\<lambda>c. of_nat (of_bits c)) (blocks 8 bits)))"

definition lib_toBech32 :: "bytes \<Rightarrow> nat \<Rightarrow> string \<Rightarrow> error + string" where
  "lib_toBech32 d version p =
     (if version = 0 then bech32_encode 1 p (version # toWords d)
      else bech32_encode 0x2bc830a3 p (version # toWords d))"

definition lib_fromBech32 :: "string \<Rightarrow> error + Bech32Result" where
  "lib_fromBech32 a =
     (case (case bech32_decode 1 a of
              Inr (p, ws) \<Rightarrow>
                (if ws \<noteq> [] \<and> hd ws = 0 then Inr (p, ws)
                 else Inl (TypeError ''uses wrong encoding''))
            | Inl e \<Rightarrow>
                (case bech32_decode 0x2bc830a3 a of
                   Inl e' \<Rightarrow> Inl e'
                 | Inr (p, ws) \<Rightarrow>
                     (if ws \<noteq> [] \<and> hd ws \<noteq> 0 then Inr (p, ws)
                      else Inl (TypeError ''uses wrong encoding'')))) of
        Inl e \<Rightarrow> Inl e
      | Inr (p, ws) \<Rightarrow>
          (case fromWords (tl ws) of
             Inl e \<Rightarrow> Inl e
           | Inr d \<Rightarrow>
               Inr \<lparr>bech32_version = hd ws, bech32_prefix = p, bech32_data = d\<rparr>))"

subsection \<open>Points of secp256k1\<close>

text \<open>
  \<open>lib_isPoint\<close> is the check of an encoded point that \<^verbatim>\<open>bitcoin.payments\<close> applies to a
  public key (\<^verbatim>\<open>types.isPoint\<close>): the length, the tag, and coordinates that are not zero and
  below the field prime. \<open>lib_tweakKey\<close> is the taproot output key of an x-only internal
  key: the point with that x coordinate and an even y, plus the generator times the
  tagged hash \<^verbatim>\<open>TapTweak\<close> of the key, where there is such a point.
\<close>

definition EC_P :: nat where
  "EC_P = 2 ^ 256 - 2 ^ 32 - 977"

definition EC_N :: nat where
  "EC_N = 0xFFFFFFFFFFFFFFFFFFFFFFFFFFFFFFFEBAAEDCE6AF48A03BBFD25E8CD0364141"

definition lib_isPoint :: "bytes \<Rightarrow> bool" where
  "lib_isPoint p =
     (if length p < 33 then False
      else
        (let t = hd p; x = be_nat (take 32 (drop 1 p)) in
         if x = 0 then False
         else if EC_P \<le> x then False
         else if (t = 2 \<or> t = 3) \<and> length p = 33 then True
         else
           (let y = be_nat (drop 33 p) in
            if y = 0 then False
            else if EC_P \<le> y then False
            else t = 4 \<and> length p = 65)))"

fun powmod :: "nat \<Rightarrow> nat \<Rightarrow> nat \<Rightarrow> nat" where
  "powmod b e m =
     (if e = 0 then 1 mod m
      else (let h = powmod b (e div 2) m in if even e then h * h mod m else h * h * b mod m))"

declare powmod.simps [simp del]

datatype point = Infinity | Point nat nat

definition point_add :: "point \<Rightarrow> point \<Rightarrow> point" where
  "point_add P Q =
     (case (P, Q) of
        (Infinity, _) \<Rightarrow> Q
      | (_, Infinity) \<Rightarrow> P
      | (Point x1 y1, Point x2 y2) \<Rightarrow>
          if x1 = x2 \<and> (y1 + y2) mod EC_P = 0 then Infinity
          else
            (let l = (if x1 = x2
                      then 3 * x1 * x1 * powmod (2 * y1) (EC_P - 2) EC_P mod EC_P
                      else (y2 + EC_P - y1) * powmod (x2 + EC_P - x1) (EC_P - 2) EC_P mod EC_P);
                 x3 = (l * l + 2 * EC_P - x1 - x2) mod EC_P
             in Point x3 ((l * (x1 + EC_P - x3) + EC_P - y1) mod EC_P)))"

fun point_mul :: "nat \<Rightarrow> point \<Rightarrow> point" where
  "point_mul k P =
     (if k = 0 then Infinity
      else (let h = point_mul (k div 2) P; d = point_add h h in
            if even k then d else point_add d P))"

declare point_mul.simps [simp del]

definition EC_G :: point where
  "EC_G = Point 0x79BE667EF9DCBBAC55A06295CE870B07029BFCDB2DCE28D959F2815B16F81798
                0x483ADA7726A3C4655DA4FBFC0E1108A8FD17B448A68554199C47D08FFB10D4B8"

definition lift_x :: "nat \<Rightarrow> point option" where
  "lift_x x =
     (if EC_P \<le> x then None
      else
        (let c = (x ^ 3 + 7) mod EC_P; y = powmod c ((EC_P + 1) div 4) EC_P in
         if y * y mod EC_P \<noteq> c then None
         else Some (Point x (if even y then y else EC_P - y))))"

definition taggedHash :: "string \<Rightarrow> bytes \<Rightarrow> bytes" where
  "taggedHash tag m =
     (let t = sha256 (map (\<lambda>c. of_nat (of_char c)) tag) in sha256 (t @ t @ m))"

definition lib_tweakKey :: "bytes \<Rightarrow> bytes option" where
  "lib_tweakKey pk =
     (if length pk \<noteq> 32 then None
      else
        (let t = be_nat (taggedHash ''TapTweak'' pk) in
         if EC_N \<le> t then None
         else
           (case lift_x (be_nat pk) of
              None \<Rightarrow> None
            | Some P \<Rightarrow>
                (case point_add P (point_mul t EC_G) of
                   Infinity \<Rightarrow> None
                 | Point x y \<Rightarrow> Some (be_bytes 32 x)))))"


subsection \<open>The library as a value of the interface\<close>

definition bitcoinjs :: bitcoin where
  "bitcoinjs =
     \<lparr>isPoint = lib_isPoint, hash160 = lib_hash160, tweakKey = lib_tweakKey,
      toBase58Check = lib_toBase58Check, fromBase58Check = lib_fromBase58Check,
      toBech32 = lib_toBech32, fromBech32 = lib_fromBech32\<rparr>"

section \<open>The round trip and what it asks of the library\<close>

text \<open>\<^verbatim>\<open>publicKeyToAddress\<close> followed by \<^verbatim>\<open>decodeAddress\<close> on the address it returns.\<close>

definition roundTrip ::
  "bitcoin \<Rightarrow> string \<Rightarrow> AddressType \<Rightarrow> NetworkType \<Rightarrow> error + DecodedAddress" where
  "roundTrip lib publicKey t n =
     (case publicKeyToAddress lib publicKey t n of
        Inl e \<Rightarrow> Inl e
      | Inr addr \<Rightarrow> decodeAddress lib addr)"



section \<open>Sample inputs\<close>

text \<open>
  The inputs at which the theorems below are run: a UTXO of the repository's own example
  scripts, the public key of the private key 1 (compressed and uncompressed), its taproot
  output, and a data source that reports the listed transactions as unconfirmed.
\<close>

definition sample_utxo :: "AddressType \<Rightarrow> string \<Rightarrow> string option \<Rightarrow> Utxo" where
  "sample_utxo t spk pk =
     \<lparr>txid = ''96bccaadd3c8f59b2411e3d64ae4c1743532415f953fc4f9741a5fd7a0a34483'', vout = 1,
      utxo_value = 10000, scriptPk = spk, utxo_addressType = t,
      address = ''tb1qhp9fh9qsfeyh0yhewgu27ndqhs5qlrqwau28m7'', pubkey = pk\<rparr>"

definition sample_pubkey :: string where
  "sample_pubkey = ''0279be667ef9dcbbac55a06295ce870b07029bfcdb2dce28d959f2815b16f81798''"

definition sample_pubkey_uncompressed :: string where
  "sample_pubkey_uncompressed =
     ''0479be667ef9dcbbac55a06295ce870b07029bfcdb2dce28d959f2815b16f81798'' @
     ''483ada7726a3c4655da4fbfc0e1108a8fd17b448a68554199c47d08ffb10d4b8''"

text \<open>
  The tweak of a key is a scalar multiplication on secp256k1 by a SHA-256 digest, too
  long a computation for the simplifier. \<open>bitcoinjs_sample\<close> is the library model with the
  tweak of the sample key given as a value: the output key in the script of
  \<open>taproot_utxo\<close> below, which is the key that the model computes when it is run as code.
  The two libraries differ in nothing else (\<open>bitcoinjs_sample_eq\<close>).
\<close>

definition sample_output_key :: bytes where
  "sample_output_key =
     Buffer_from_hex ''da4710964f7852695de2da025290e24af6d8c281de5a0b902b7135fd9fd74d21''"

definition bitcoinjs_sample :: bitcoin where
  "bitcoinjs_sample =
     bitcoinjs\<lparr>tweakKey :=
       (\<lambda>k. if k = toXOnly (Buffer_from_hex sample_pubkey) then Some sample_output_key
            else lib_tweakKey k)\<rparr>"

definition unconfirmed_source :: "string list \<Rightarrow> DataSource" where
  "unconfirmed_source txids =
     \<lparr>isTransactionConfirmed = (\<lambda>t. if t \<in> set txids then Inr False else Inr True)\<rparr>"

definition taproot_utxo :: "string \<Rightarrow> nat \<Rightarrow> string option \<Rightarrow> Utxo" where
  "taproot_utxo t n pk =
     \<lparr>txid = t, vout = n, utxo_value = 546,
      scriptPk = ''5120da4710964f7852695de2da025290e24af6d8c281de5a0b902b7135fd9fd74d21'',
      utxo_addressType = P2TR,
      address = ''bc1pmfr3p9j00pfxjh0zmgp99y8zftmd3s5pmedqhyptwy6lm87hf5sspknck9'', pubkey = pk\<rparr>"

section \<open>The library model: decoders invert encoders\<close>

subsection \<open>The Bech32 checksum\<close>











lemma drop_bit_30_xor:
  "drop_bit 30 a = 0 \<Longrightarrow> drop_bit 30 b = 0 \<Longrightarrow> drop_bit 30 (a XOR b) = (0 :: 32 word)"
  by (simp add: drop_bit_xor)





subsection \<open>Bech32 strings\<close>

lemma indexOf_nth: "distinct xs \<Longrightarrow> i < length xs \<Longrightarrow> indexOf xs (xs ! i) = Some i"
proof (induction xs arbitrary: i)
  case Nil
  then show ?case by simp
next
  case (Cons x xs)
  then show ?case by (cases i) auto
qed

lemma indexOf_None_iff: "indexOf xs c = None \<longleftrightarrow> c \<notin> set xs"
  by (induction xs) auto


















subsection \<open>Bytes and 5-bit words\<close>

lemma bits_of_length [simp]: "length (bits_of n x) = n"
  by (induction n arbitrary: x) auto


lemma of_bits_Nil [simp]: "of_bits [] = 0"
  by (simp add: of_bits_def)




lemma chunks_length [simp]: "length (chunks m k xs) = m"
  by (induction m arbitrary: xs) auto












subsection \<open>Bech32 addresses\<close>





subsection \<open>Positional digits\<close>

lemma digits_value_snoc: "digits_value b (ds @ [d]) = digits_value b ds * b + d"
  by (simp add: digits_value_def)

lemma digits_value_Nil [simp]: "digits_value b [] = 0"
  by (simp add: digits_value_def)

lemma digits_0 [simp]: "digits b 0 = []"
  by (simp add: digits.simps)

lemma digits_step: "2 \<le> b \<Longrightarrow> n \<noteq> 0 \<Longrightarrow> digits b n = digits b (n div b) @ [n mod b]"
  by (subst digits.simps) simp

lemma digits_value_digits: "2 \<le> b \<Longrightarrow> digits_value b (digits b n) = n"
proof (induction b n rule: digits.induct)
  case (1 b n)
  show ?case
  proof (cases "n = 0")
    case True
    then show ?thesis by simp
  next
    case False
    then have "digits_value b (digits b (n div b)) = n div b"
      using 1 by simp
    then show ?thesis
      using False "1.prems" by (simp add: digits_step digits_value_snoc)
  qed
qed

lemma digits_less: "2 \<le> b \<Longrightarrow> d \<in> set (digits b n) \<Longrightarrow> d < b"
proof (induction b n rule: digits.induct)
  case (1 b n)
  show ?case
  proof (cases "n = 0")
    case True
    then show ?thesis using "1.prems" by simp
  next
    case False
    then have "d \<in> set (digits b (n div b)) \<or> d = n mod b"
      using "1.prems" by (auto simp: digits_step)
    then show ?thesis
      using 1 False by auto
  qed
qed

lemma digits_Nil_iff: "2 \<le> b \<Longrightarrow> digits b n = [] \<longleftrightarrow> n = 0"
  by (cases "n = 0") (simp_all add: digits_step)

lemma digits_hd: "2 \<le> b \<Longrightarrow> n \<noteq> 0 \<Longrightarrow> hd (digits b n) \<noteq> 0"
proof (induction b n rule: digits.induct)
  case (1 b n)
  show ?case
  proof (cases "n div b = 0")
    case True
    then have "n < b" using "1.prems" by (simp add: div_eq_0_iff)
    then show ?thesis using "1.prems" True by (simp add: digits_step)
  next
    case False
    then have "hd (digits b (n div b)) \<noteq> 0" using 1 by simp
    moreover have "digits b (n div b) \<noteq> []" using False "1.prems" by (simp add: digits_Nil_iff)
    ultimately show ?thesis using "1.prems" by (simp add: digits_step)
  qed
qed

lemma digits_digits_value:
  "2 \<le> b \<Longrightarrow> \<forall>d \<in> set ds. d < b \<Longrightarrow> ds = [] \<or> hd ds \<noteq> 0 \<Longrightarrow>
     digits b (digits_value b ds) = ds"
proof (induction ds rule: rev_induct)
  case Nil
  then show ?case by simp
next
  case (snoc d ds)
  have d: "d < b" using snoc.prems by simp
  show ?case
  proof (cases "ds = []")
    case True
    then have "d \<noteq> 0" using snoc.prems by simp
    then show ?thesis
      using True d snoc.prems(1) by (simp add: digits_value_def digits_step)
  next
    case False
    then have hd: "hd ds \<noteq> 0" using snoc.prems(3) by simp
    then have ih: "digits b (digits_value b ds) = ds"
      using snoc by simp
    then have "digits_value b ds \<noteq> 0" using False by (metis digits_0)
    then have "digits_value b ds * b + d \<noteq> 0" using snoc.prems(1) by simp
    moreover have "(digits_value b ds * b + d) div b = digits_value b ds" using d by simp
    moreover have "(digits_value b ds * b + d) mod b = d" using d by simp
    ultimately show ?thesis
      using snoc.prems(1) ih by (simp add: digits_value_snoc digits_step)
  qed
qed

lemma digits_value_append:
  "digits_value b (xs @ ys) = digits_value b xs * b ^ length ys + digits_value b ys"
proof (induction ys rule: rev_induct)
  case Nil
  then show ?case by simp
next
  case (snoc y ys)
  have "digits_value b (xs @ ys @ [y]) = digits_value b (xs @ ys) * b + y"
    using digits_value_snoc [of b "xs @ ys" y] by simp
  then show ?case
    using snoc by (simp add: digits_value_snoc algebra_simps)
qed

lemma digits_value_zeros: "digits_value b (replicate k 0) = 0"
proof (induction k)
  case 0
  then show ?case by simp
next
  case (Suc k)
  have "replicate (Suc k) (0::nat) = replicate k 0 @ [0]"
    by (simp add: replicate_append_same)
  then have "digits_value b (replicate (Suc k) 0) = digits_value b (replicate k 0) * b + 0"
    by (simp only: digits_value_snoc)
  then show ?case using Suc by simp
qed

lemma digits_value_drop_zeros: "digits_value b (replicate k 0 @ ds) = digits_value b ds"
  by (simp add: digits_value_append digits_value_zeros)

lemma digits_value_Cons: "digits_value b (x # xs) = x * b ^ length xs + digits_value b xs"
  using digits_value_append [of b "[x]" xs] digits_value_snoc [of b "[]" x] by simp

lemma digits_value_bound:
  "\<forall>d \<in> set ds. d < b \<Longrightarrow> digits_value b ds < b ^ length ds"
proof (induction ds rule: rev_induct)
  case Nil
  then show ?case by simp
next
  case (snoc d ds)
  then have "digits_value b ds < b ^ length ds" "d < b" by simp_all
  then have "digits_value b ds + 1 \<le> b ^ length ds" by simp
  then have "(digits_value b ds + 1) * b \<le> b ^ length ds * b" by (rule mult_le_mono1)
  then have "digits_value b ds * b + b \<le> b ^ Suc (length ds)"
    by (simp add: algebra_simps)
  moreover have "digits_value b ds * b + d < digits_value b ds * b + b"
    using \<open>d < b\<close> by simp
  ultimately show ?case by (simp add: digits_value_snoc)
qed

lemma digits_leading:
  "2 \<le> b \<Longrightarrow> 0 < d1 \<Longrightarrow> d2 \<le> b \<Longrightarrow> d1 * b ^ k \<le> n \<Longrightarrow> n < d2 * b ^ k \<Longrightarrow>
     digits b n \<noteq> [] \<and> d1 \<le> hd (digits b n) \<and> hd (digits b n) < d2"
proof (induction k arbitrary: n)
  case 0
  then have "n \<noteq> 0" "n < b" by simp_all
  then have "digits b n = [n]" using "0.prems"(1) by (simp add: digits_step)
  then show ?case using 0 by simp
next
  case (Suc k)
  have "0 < d1 * b ^ Suc k" using Suc.prems(1,2) by simp
  then have n0: "n \<noteq> 0" using Suc.prems(4) by linarith
  have "d1 * b ^ k * b \<le> n" using Suc.prems(4) by (simp add: ac_simps)
  then have lo: "d1 * b ^ k \<le> n div b"
    using Suc.prems(1) by (simp add: less_eq_div_iff_mult_less_eq)
  have "n < d2 * b ^ k * b" using Suc.prems(5) by (simp add: ac_simps)
  then have hi: "n div b < d2 * b ^ k"
    using Suc.prems(1) by (simp add: div_less_iff_less_mult)
  have ih: "digits b (n div b) \<noteq> [] \<and> d1 \<le> hd (digits b (n div b)) \<and> hd (digits b (n div b)) < d2"
    by (rule Suc.IH [OF Suc.prems(1,2,3) lo hi])
  then show ?case using n0 Suc.prems(1) by (simp add: digits_step)
qed

subsection \<open>Base58\<close>

lemma alphabet_length: "length base58_alphabet = 58"
  by (simp add: base58_alphabet_def)

lemma alphabet_distinct: "distinct base58_alphabet"
  by (simp add: base58_alphabet_def)

lemma alphabet_0: "base58_alphabet ! 0 = CHR ''1''"
  by (simp add: base58_alphabet_def)

lemma alphabet_one_iff: "d < 58 \<Longrightarrow> base58_alphabet ! d = CHR ''1'' \<longleftrightarrow> d = 0"
  using alphabet_distinct alphabet_length alphabet_0
  by (metis nth_eq_iff_index_eq zero_less_numeral)

lemma takeWhile_zeros:
  "takeWhile (\<lambda>x. x = z) xs = replicate (length (takeWhile (\<lambda>x. x = z) xs)) z"
  by (induction xs) auto

lemma takeWhile_replicate_stop:
  "x \<noteq> a \<Longrightarrow> takeWhile (\<lambda>c. c = a) (replicate z a @ x # xs) = replicate z a"
  by (induction z) auto

lemma leading_zeros_unat:
  "length (takeWhile (\<lambda>u. u = 0) (map unat bs)) = length (takeWhile (\<lambda>b. b = 0) (bs :: bytes))"
  by (induction bs) (auto simp: unat_eq_0)

lemma split_zeros_unat:
  fixes bs :: bytes
  shows "map unat bs = replicate (length (takeWhile (\<lambda>b. b = 0) bs)) 0 @ dropWhile (\<lambda>u. u = 0) (map unat bs)"
proof -
  have t: "takeWhile (\<lambda>u. u = 0) (map unat bs) = replicate (length (takeWhile (\<lambda>b. b = 0) bs)) 0"
    using takeWhile_zeros [of 0 "map unat bs"] leading_zeros_unat [of bs] by simp
  have "map unat bs = takeWhile (\<lambda>u. u = 0) (map unat bs) @ dropWhile (\<lambda>u. u = 0) (map unat bs)"
    by simp
  then show ?thesis
    unfolding t .
qed

lemma map_of_nat_unat: "map of_nat (map unat bs) = (bs :: bytes)"
  by (induction bs) simp_all

lemma dropWhile_unat:
  "map of_nat (dropWhile (\<lambda>u. u = 0) (map unat bs)) = dropWhile (\<lambda>b. b = 0) (bs :: bytes)"
proof (induction bs)
  case Nil
  then show ?case by simp
next
  case (Cons b bs)
  show ?case
  proof (cases "b = 0")
    case True
    then show ?thesis using Cons by simp
  next
    case False
    then have "unat b \<noteq> 0" by (simp add: unat_eq_0)
    then show ?thesis
      using False map_of_nat_unat [of bs] by simp
  qed
qed

lemma base58_roundtrip: "base58_decode (base58_encode bs) = Some bs"
proof -
  define z where "z = length (takeWhile (\<lambda>b. b = 0) bs)"
  define U where "U = dropWhile (\<lambda>u. u = 0) (map unat bs)"
  define N where "N = digits_value 256 (map unat bs)"
  define D where "D = digits 58 N"
  have enc: "base58_encode bs = replicate z CHR ''1'' @ map (\<lambda>d. base58_alphabet ! d) D"
    by (simp add: base58_encode_def z_def D_def N_def)
  have D58: "\<forall>d \<in> set D. d < 58"
    unfolding D_def using digits_less [of 58] by auto
  have Dhd: "D = [] \<or> hd D \<noteq> 0"
    unfolding D_def using digits_hd [of 58 N] by (cases "N = 0") simp_all
  have idx: "map (\<lambda>c. the (indexOf base58_alphabet c)) (map (\<lambda>d. base58_alphabet ! d) D) = D"
    using D58 by (induction D) (auto simp: indexOf_nth alphabet_distinct alphabet_length)
  have one_in: "CHR ''1'' \<in> set base58_alphabet"
    using nth_mem [of 0 base58_alphabet] by (simp add: alphabet_0 alphabet_length)
  have "base58_alphabet ! d \<in> set base58_alphabet" if "d \<in> set D" for d
    using that D58 by (simp add: alphabet_length)
  then have valid: "list_all (\<lambda>c. indexOf base58_alphabet c \<noteq> None) (base58_encode bs)"
    unfolding enc using one_in
    by (auto simp: list_all_iff indexOf_None_iff)
  have ones: "takeWhile (\<lambda>c. c = CHR ''1'') (base58_encode bs) = replicate z CHR ''1''"
  proof (cases D)
    case Nil
    then show ?thesis unfolding enc by (simp add: takeWhile_replicate)
  next
    case (Cons d ds)
    then have "d \<noteq> 0" "d < 58" using Dhd D58 by simp_all
    then have "base58_alphabet ! d \<noteq> CHR ''1''" by (simp add: alphabet_one_iff)
    then show ?thesis unfolding enc Cons
      by (simp add: takeWhile_replicate_stop)
  qed
  have vals: "map (\<lambda>c. the (indexOf base58_alphabet c)) (base58_encode bs) = replicate z 0 @ D"
    unfolding enc using idx
    by (simp add: indexOf_nth [OF alphabet_distinct, of 0, simplified alphabet_0] alphabet_length
        map_replicate_const del: replicate_eq_replicate)
  have "digits_value 58 (replicate z 0 @ D) = N"
    unfolding D_def by (simp add: digits_value_drop_zeros digits_value_digits)
  moreover have "digits 256 N = U"
  proof -
    have m: "map unat bs = replicate z 0 @ U"
      unfolding z_def U_def by (rule split_zeros_unat)
    have "N = digits_value 256 U"
      unfolding N_def m by (simp add: digits_value_drop_zeros)
    moreover have "\<forall>d \<in> set U. d < 256"
    proof
      fix d assume "d \<in> set U"
      then have "d \<in> set (map unat bs)" unfolding U_def by (rule set_dropWhileD)
      then obtain b where "d = unat (b :: 8 word)" by auto
      then show "d < 256" using unsigned_less [of b] by simp
    qed
    moreover have "U = [] \<or> hd U \<noteq> 0"
    proof (cases "U = []")
      case True
      then show ?thesis by simp
    next
      case False
      then have "\<not> hd U = 0"
        unfolding U_def by (rule hd_dropWhile)
      then show ?thesis by simp
    qed
    ultimately show ?thesis by (simp add: digits_digits_value)
  qed
  moreover have "replicate z 0 @ map of_nat U = bs"
  proof -
    have "bs = takeWhile (\<lambda>b. b = 0) bs @ dropWhile (\<lambda>b. b = 0) bs" by simp
    then show ?thesis
      using takeWhile_zeros [of 0 bs] dropWhile_unat [of bs] by (simp add: z_def U_def)
  qed
  ultimately show ?thesis
    using valid by (simp add: base58_decode_def ones vals)
qed

subsection \<open>Hash lengths and Base58Check addresses\<close>

lemma be_bytes_length [simp]: "length (be_bytes k n) = k"
  by (induction k arbitrary: n) auto

lemma le_bytes_length [simp]: "length (le_bytes k n) = k"
  by (simp add: le_bytes_def)

lemma concat_const_length:
  "(\<And>x. x \<in> set xs \<Longrightarrow> length (f x) = k) \<Longrightarrow> length (concat (map f xs)) = k * length xs"
  by (induction xs) auto

lemma sha256_round_length: "length (sha256_round st kw) = length st"
  by (induction st kw rule: sha256_round.induct) (simp_all add: Let_def)

lemma foldl_sha256_round_length: "length (foldl sha256_round st kws) = length st"
  by (induction kws arbitrary: st) (simp_all add: sha256_round_length)

lemma sha256_block_length: "length (sha256_block st blk) = length st"
  by (simp add: sha256_block_def Let_def foldl_sha256_round_length)

lemma foldl_sha256_block_length: "length (foldl sha256_block st blks) = length st"
  by (induction blks arbitrary: st) (simp_all add: sha256_block_length)

lemma sha256_length: "length (sha256 m) = 32"
proof -
  have "length sha256_H0 = 8" by (simp add: sha256_H0_def primes64_def)
  then show ?thesis
    unfolding sha256_def
    by (subst concat_const_length [where k = 4]) (simp_all add: foldl_sha256_block_length)
qed

lemma rmd_block_length: "length (rmd_block h blk) = 5"
  by (simp add: rmd_block_def Let_def)

lemma foldl_rmd_block_length: "length h = 5 \<Longrightarrow> length (foldl rmd_block h blks) = 5"
  by (induction blks rule: rev_induct) (simp_all add: rmd_block_length)

lemma ripemd160_length: "length (ripemd160 m) = 20"
  unfolding ripemd160_def
  by (subst concat_const_length [where k = 4]) (simp_all add: foldl_rmd_block_length)

lemma lib_hash160_length: "length (lib_hash160 m) = 20"
  by (simp add: lib_hash160_def ripemd160_length)

lemma checksum4_length: "length (checksum4 p) = 4"
  by (simp add: checksum4_def sha256_length)


lemma lib_base58check_roundtrip:
  assumes "lib_toBase58Check h v = Inr s"
  shows "lib_fromBase58Check s = Inr \<lparr>base58_hash = h, base58_version = v\<rparr>"
proof -
  have h: "length h = 20" and v: "v < 256"
    and s: "s = base58_encode ((of_nat v # h) @ checksum4 (of_nat v # h))"
    using assms by (auto simp: lib_toBase58Check_def split: if_splits)
  have "unat (of_nat v :: 8 word) = v"
    using v by (simp add: unat_of_nat)
  then show ?thesis
    unfolding s lib_fromBase58Check_def
    using h by (simp add: base58_roundtrip checksum4_length Let_def)
qed

lemma base58_encode_first:
  assumes "bs = b # rest" and "b \<noteq> 0" and "length rest = k"
    and "0 < d1" and "d2 \<le> 58"
    and "d1 * 58 ^ j \<le> unat b * 256 ^ k" and "(unat b + 1) * 256 ^ k \<le> d2 * 58 ^ j"
  shows "\<exists>d cs. base58_encode bs = base58_alphabet ! d # cs \<and> d1 \<le> d \<and> d < d2"
proof -
  let ?N = "digits_value 256 (map unat bs)"
  have "\<forall>d \<in> set (map unat rest). d < 256"
  proof
    fix d assume "d \<in> set (map unat rest)"
    then obtain x where "d = unat (x :: 8 word)" by auto
    then show "d < 256" using unsigned_less [of x] by simp
  qed
  then have "digits_value 256 (map unat rest) < 256 ^ k"
    using digits_value_bound [of "map unat rest" 256] assms(3) by simp
  moreover have N: "?N = unat b * 256 ^ k + digits_value 256 (map unat rest)"
    using assms(1,3) by (simp add: digits_value_Cons)
  ultimately have "d1 * 58 ^ j \<le> ?N" "?N < d2 * 58 ^ j"
    using assms(6,7) by (simp_all add: algebra_simps)
  then have "digits 58 ?N \<noteq> [] \<and> d1 \<le> hd (digits 58 ?N) \<and> hd (digits 58 ?N) < d2"
    using digits_leading [of 58 d1 d2 j ?N] assms(4,5) by simp
  then obtain d ds where "digits 58 ?N = d # ds" "d1 \<le> d" "d < d2"
    by (cases "digits 58 ?N") auto
  then show ?thesis
    using assms(1,2) by (auto simp: base58_encode_def)
qed

lemma lib_toBase58Check_first:
  assumes "lib_toBase58Check h v = Inr s" and "v \<in> {0x00, 0x05, 0x6f, 0xc4}"
  shows "\<exists>c cs. s = c # cs \<and> c \<in> {CHR ''1'', CHR ''3'', CHR ''m'', CHR ''n'', CHR ''2''}"
proof -
  have h: "length h = 20"
    and s: "s = base58_encode ((of_nat v # h) @ checksum4 (of_nat v # h))"
    using assms(1) by (auto simp: lib_toBase58Check_def split: if_splits)
  let ?rest = "h @ checksum4 (of_nat v # h)"
  have len: "length ?rest = 24" using h by (simp add: checksum4_length)
  have bs: "(of_nat v # h) @ checksum4 (of_nat v # h) = of_nat v # ?rest" by simp
  consider "v = 0" | "v = 5" | "v = 111" | "v = 196" using assms(2) by auto
  then show ?thesis
  proof cases
    case 1
    then show ?thesis unfolding s by (simp add: base58_encode_def)
  next
    case 2
    have "\<exists>d cs. base58_encode (5 # ?rest) = base58_alphabet ! d # cs \<and> 2 \<le> d \<and> d < 3"
      by (rule base58_encode_first [where k = 24 and j = 33 and b = 5 and rest = "?rest"])
        (simp_all add: h checksum4_length)
    then obtain d cs where e: "base58_encode (5 # ?rest) = base58_alphabet ! d # cs"
      and "2 \<le> d" "d < 3"
      by blast
    then have "d = 2" by simp
    then show ?thesis unfolding s using 2 e by (simp add: base58_alphabet_def)
  next
    case 3
    have "\<exists>d cs. base58_encode (111 # ?rest) = base58_alphabet ! d # cs \<and> 44 \<le> d \<and> d < 46"
      by (rule base58_encode_first [where k = 24 and j = 33 and b = 111 and rest = "?rest"])
        (simp_all add: h checksum4_length)
    then obtain d cs where e: "base58_encode (111 # ?rest) = base58_alphabet ! d # cs"
      and "44 \<le> d" "d < 46"
      by blast
    then have "d = 44 \<or> d = 45" by auto
    then show ?thesis unfolding s using 3 e by (auto simp: base58_alphabet_def)
  next
    case 4
    have "\<exists>d cs. base58_encode (196 # ?rest) = base58_alphabet ! d # cs \<and> 1 \<le> d \<and> d < 2"
      by (rule base58_encode_first [where k = 24 and j = 34 and b = 196 and rest = "?rest"])
        (simp_all add: h checksum4_length)
    then obtain d cs where e: "base58_encode (196 # ?rest) = base58_alphabet ! d # cs"
      and "1 \<le> d" "d < 2"
      by blast
    then have "d = 1" by simp
    then show ?thesis unfolding s using 4 e by (simp add: base58_alphabet_def)
  qed
qed

subsection \<open>The model satisfies the laws\<close>


lemma bitcoinjs_sample_eq:
  assumes "lib_tweakKey (toXOnly (Buffer_from_hex sample_pubkey)) = Some sample_output_key"
  shows "bitcoinjs_sample = bitcoinjs"
proof -
  have "(\<lambda>k. if k = toXOnly (Buffer_from_hex sample_pubkey) then Some sample_output_key
             else lib_tweakKey k) = lib_tweakKey"
    using assms by auto
  then show ?thesis
    by (simp add: bitcoinjs_sample_def bitcoinjs_def)
qed



lemma sample_pubkey_bytes:
  "sample_pubkey \<noteq> []"
  "remove0x sample_pubkey = sample_pubkey"
  "length (Buffer_from_hex sample_pubkey) = 33"
  "lib_isPoint (Buffer_from_hex sample_pubkey)"
  by (simp_all add: sample_pubkey_def remove0x_def startsWith_def hexDigit_def lib_isPoint_def
      be_nat_def EC_P_def)

lemma lib_toBase58Check_hash160:
  assumes "v \<in> {0x00, 0x05, 0x6f, 0xc4}"
  shows "\<exists>c cs. lib_toBase58Check (lib_hash160 m) v = Inr (c # cs)"
proof -
  have "v < 256" using assms by auto
  then obtain s where s: "lib_toBase58Check (lib_hash160 m) v = Inr s"
    by (simp add: lib_toBase58Check_def lib_hash160_length)
  then show ?thesis using lib_toBase58Check_first [OF s assms] by blast
qed


section \<open>Address decoding\<close>

lemma decodeAddress_cases:
  "decodeAddress lib addr = Inr fallback \<or>
   (\<exists>n t. decodeAddress lib addr =
      Inr \<lparr>networkType = n, addressType = t, dust = getAddressTypeDust t\<rparr> \<and>
      t \<in> {P2WPKH, P2WSH, P2TR, P2PKH, P2SH_P2WPKH})"
  by (auto simp: decodeAddress_def bech32_addressType_def base58_classify_def
      split: sum.splits option.splits prod.splits if_splits)

lemma bits_of_numeral:
  "bits_of (numeral k) x = bits_of (pred_numeral k) (x div 2) @ [odd x]"
  by (simp add: numeral_eq_Suc)

text \<open>
  \<^verbatim>\<open>decodeAddress\<close> run on the library model: the receiver address of the
  repository's example script, the taproot address of the sample key, a regtest
  address, an address with a wrong checksum and the empty string.
\<close>

lemma decodeAddress_examples:
  "decodeAddress bitcoinjs ''tb1qhp9fh9qsfeyh0yhewgu27ndqhs5qlrqwau28m7'' =
     Inr \<lparr>networkType = TESTNET, addressType = P2WPKH, dust = 294\<rparr>"
  "decodeAddress bitcoinjs ''bc1pmfr3p9j00pfxjh0zmgp99y8zftmd3s5pmedqhyptwy6lm87hf5sspknck9'' =
     Inr \<lparr>networkType = MAINNET, addressType = P2TR, dust = 330\<rparr>"
  "decodeAddress bitcoinjs ''bcrt1qw508d6qejxtdg4y5r3zarvary0c5xw7kygt080'' =
     Inr \<lparr>networkType = REGTEST, addressType = P2WPKH, dust = 294\<rparr>"
  "decodeAddress bitcoinjs ''bc1qw508d6qejxtdg4y5r3zarvary0c5xw7kv8f3t5'' =
     Inr \<lparr>networkType = MAINNET, addressType = UNKNOWN, dust = 546\<rparr>"
  "decodeAddress bitcoinjs [] =
     Inr \<lparr>networkType = MAINNET, addressType = UNKNOWN, dust = 546\<rparr>"
  by (simp_all add: decodeAddress_def bitcoinjs_def lib_fromBech32_def lib_fromBase58Check_def
      base58_decode_def digits_value_def fromWords_def blocks_def of_bits_def bits_of_numeral
      bech32_decode_def toLowerCase_def toUpperCase_def lastIndexOf_def prefixChk_def
      bech32_charset_def polymod_def polymodStep_def charCode_def Let_def startsWith_def
      bech32_networkType_def bech32_addressType_def networks_bitcoin_def networks_testnet_def
      networks_regtest_def getAddressTypeDust_def fallback_def)

text \<open>
  C3: \<^verbatim>\<open>decodeAddress\<close> never raises: for every behaviour of the library and every
  string it returns a value, and whenever the branch it takes does not yield both a
  network and a type (the library call throwing included) that value is
  UNKNOWN / MAINNET / 546.
\<close>

theorem decodeAddress_never_raises:
  "decodeAddress lib addr =
     Inr (case branch_outcome lib addr of
            (Some n, Some t) \<Rightarrow> \<lparr>networkType = n, addressType = t, dust = getAddressTypeDust t\<rparr>
          | _ \<Rightarrow> \<lparr>networkType = MAINNET, addressType = UNKNOWN, dust = 546\<rparr>)"
  by (simp add: decodeAddress_def branch_outcome_def fallback_def
      split: sum.split option.split prod.split)

text \<open>
  C4: \<^verbatim>\<open>decodeAddress\<close> never returns the address type P2SH, whatever the library
  does; an address that the library decodes as Base58Check with the \<^verbatim>\<open>scriptHash\<close>
  version byte of a network is classified as P2SH_P2WPKH.
\<close>

theorem decodeAddress_never_P2SH:
  "(\<exists>d. decodeAddress lib addr = Inr d \<and> addressType d \<noteq> P2SH) \<and>
   (\<not> (startsWith addr ''bc1'' \<or> startsWith addr ''tb1'' \<or> startsWith addr ''bcrt1'') \<and>
    fromBase58Check lib addr = Inr r \<and>
    base58_version r \<in> {scriptHash networks_bitcoin, scriptHash networks_testnet,
                          scriptHash networks_regtest} \<longrightarrow>
      (\<exists>d. decodeAddress lib addr = Inr d \<and> addressType d = P2SH_P2WPKH))"
  using decodeAddress_cases [of lib addr]
  by (auto simp: fallback_def decodeAddress_def base58_classify_def networks_bitcoin_def
      networks_testnet_def networks_regtest_def)

text \<open>The theorem of C4 at the P2SH_P2WPKH address of the sample key on MAINNET.\<close>

theorem decodeAddress_never_P2SH_witness:
  "\<exists>d. roundTrip bitcoinjs sample_pubkey P2SH_P2WPKH MAINNET = Inr d \<and>
       addressType d = P2SH_P2WPKH"
proof -
  let ?h = "lib_hash160 ([0x00, 0x14] @ lib_hash160 (Buffer_from_hex sample_pubkey))"
  have "\<exists>c cs. lib_toBase58Check ?h 5 = Inr (c # cs)"
    by (rule lib_toBase58Check_hash160) simp
  then obtain c cs where enc: "lib_toBase58Check ?h 5 = Inr (c # cs)"
    by blast
  have addr: "publicKeyToAddress bitcoinjs sample_pubkey P2SH_P2WPKH MAINNET = Inr (c # cs)"
    using enc sample_pubkey_bytes
    by (simp add: publicKeyToAddress_def publicKeyToPayment_def payments_p2wpkh_def
        payments_p2sh_def bitcoinjs_def networks_bitcoin_def)
  have dec: "fromBase58Check bitcoinjs (c # cs) = Inr \<lparr>base58_hash = ?h, base58_version = 5\<rparr>"
    using lib_base58check_roundtrip [OF enc] by (simp add: bitcoinjs_def)
  have "c \<in> {CHR ''1'', CHR ''3'', CHR ''m'', CHR ''n'', CHR ''2''}"
    using lib_toBase58Check_first [OF enc] by auto
  then have pre: "\<not> (startsWith (c # cs) ''bc1'' \<or> startsWith (c # cs) ''tb1'' \<or>
      startsWith (c # cs) ''bcrt1'')"
    by (auto simp: startsWith_def)
  show ?thesis
    using decodeAddress_never_P2SH [of bitcoinjs "c # cs"
        "\<lparr>base58_hash = ?h, base58_version = 5\<rparr>"] addr dec pre
    by (simp add: roundTrip_def networks_bitcoin_def)
qed

text \<open>
  C5: the dust of a decoded address is a function of its address type alone: 294 for
  P2WPKH, 330 for P2TR and 546 for every other type, UNKNOWN included.
\<close>

theorem decodeAddress_dust:
  "(\<exists>d. decodeAddress lib addr = Inr d \<and> dust d = getAddressTypeDust (addressType d)) \<and>
   getAddressTypeDust t = (if t = P2WPKH then 294 else if t = P2TR then 330 else 546)"
  using decodeAddress_cases [of lib addr]
  by (auto simp: fallback_def getAddressTypeDust_def)

section \<open>The round trip through the address\<close>








section \<open>UTXO to input\<close>

text \<open>
  C6: a P2WPKH or P2SH UTXO gives an input with the signing reference and the witness
  UTXO only (no \<^verbatim>\<open>tapInternalKey\<close>, no \<^verbatim>\<open>redeemScript\<close>); a P2PKH, P2WSH or UNKNOWN
  UTXO fails with \<^verbatim>\<open>UNSUPPORTED_ADDRESS_TYPE\<close>.
\<close>

theorem utxoToInput_plain:
  "(utxo_addressType u = P2WPKH \<longrightarrow>
      utxoToInput lib u =
        Inr \<lparr>data = \<lparr>hash = txid u, index = vout u,
                      witnessUtxo = \<lparr>witness_value = utxo_value u,
                                     script = Buffer_from_hex (remove0x (scriptPk u))\<rparr>,
                      tapInternalKey = None, redeemScript = None\<rparr>,
             utxo = u\<rparr>) \<and>
   (utxo_addressType u = P2SH \<longrightarrow>
      utxoToInput lib u =
        Inr \<lparr>data = \<lparr>hash = txid u, index = vout u,
                      witnessUtxo = \<lparr>witness_value = utxo_value u,
                                     script = Buffer_from_hex (scriptPk u)\<rparr>,
                      tapInternalKey = None, redeemScript = None\<rparr>,
             utxo = u\<rparr>) \<and>
   (utxo_addressType u \<in> {P2PKH, P2WSH, UNKNOWN} \<longrightarrow>
      utxoToInput lib u = Inl (TxBuildError UNSUPPORTED_ADDRESS_TYPE None))"
  by (auto simp: utxoToInput_def)

text \<open>The theorem of C6 at a P2WPKH, a P2SH and a P2PKH UTXO.\<close>

theorem utxoToInput_plain_witness:
  "utxoToInput bitcoinjs (sample_utxo P2WPKH ''0x0014b84a'' None) =
     Inr \<lparr>data = \<lparr>hash = ''96bccaadd3c8f59b2411e3d64ae4c1743532415f953fc4f9741a5fd7a0a34483'',
                   index = 1,
                   witnessUtxo = \<lparr>witness_value = 10000, script = [0x00, 0x14, 0xb8, 0x4a]\<rparr>,
                   tapInternalKey = None, redeemScript = None\<rparr>,
          utxo = sample_utxo P2WPKH ''0x0014b84a'' None\<rparr> \<and>
   utxoToInput bitcoinjs (sample_utxo P2SH ''a914b84a'' None) =
     Inr \<lparr>data = \<lparr>hash = ''96bccaadd3c8f59b2411e3d64ae4c1743532415f953fc4f9741a5fd7a0a34483'',
                   index = 1,
                   witnessUtxo = \<lparr>witness_value = 10000, script = [0xa9, 0x14, 0xb8, 0x4a]\<rparr>,
                   tapInternalKey = None, redeemScript = None\<rparr>,
          utxo = sample_utxo P2SH ''a914b84a'' None\<rparr> \<and>
   utxoToInput bitcoinjs (sample_utxo P2PKH ''76a914b84a'' (Some sample_pubkey)) =
     Inl (TxBuildError UNSUPPORTED_ADDRESS_TYPE None)"
  using utxoToInput_plain [of "sample_utxo P2WPKH ''0x0014b84a'' None" bitcoinjs]
    utxoToInput_plain [of "sample_utxo P2SH ''a914b84a'' None" bitcoinjs]
    utxoToInput_plain [of "sample_utxo P2PKH ''76a914b84a'' (Some sample_pubkey)" bitcoinjs]
  by (simp add: sample_utxo_def hexDigit_def remove0x_def startsWith_def)

text \<open>
  C2, as the code has it: without a pubkey a P2TR or P2SH_P2WPKH UTXO fails with
  \<^verbatim>\<open>MISSING_PUBKEY\<close> and the address; with a pubkey a P2TR UTXO always succeeds and
  carries \<^verbatim>\<open>tapInternalKey\<close> only; a P2SH_P2WPKH UTXO succeeds, carrying
  \<^verbatim>\<open>redeemScript\<close> only, exactly when the library accepts the decoded key for a
  P2WPKH payment (a point, 33 bytes long), and fails with the library's
  \<^verbatim>\<open>TypeError\<close> otherwise.
\<close>

theorem utxoToInput_pubkey:
  "(utxo_addressType u \<in> {P2TR, P2SH_P2WPKH} \<and> \<not> truthy (pubkey u) \<longrightarrow>
      utxoToInput lib u = Inl (TxBuildError MISSING_PUBKEY (Some (address u)))) \<and>
   (utxo_addressType u = P2TR \<and> truthy (pubkey u) \<longrightarrow>
      (\<exists>i. utxoToInput lib u = Inr i \<and>
           tapInternalKey (data i) = Some (toXOnly (Buffer_from_hex (remove0x (the (pubkey u))))) \<and>
           redeemScript (data i) = None)) \<and>
   (utxo_addressType u = P2SH_P2WPKH \<and> truthy (pubkey u) \<and>
    isPoint lib (Buffer_from_hex (the (pubkey u))) \<and>
    length (Buffer_from_hex (the (pubkey u))) = 33 \<longrightarrow>
      (\<exists>i. utxoToInput lib u = Inr i \<and>
           tapInternalKey (data i) = None \<and>
           redeemScript (data i) =
             Some ([0x00, 0x14] @ hash160 lib (Buffer_from_hex (the (pubkey u)))))) \<and>
   (utxo_addressType u = P2SH_P2WPKH \<and> truthy (pubkey u) \<and>
    \<not> (isPoint lib (Buffer_from_hex (the (pubkey u))) \<and>
       length (Buffer_from_hex (the (pubkey u))) = 33) \<longrightarrow>
      (\<exists>msg. utxoToInput lib u = Inl (TypeError msg)))"
  by (auto simp: utxoToInput_def payments_p2wpkh_def)

text \<open>The theorem of C2 at UTXOs without a pubkey, with a compressed and with an uncompressed one.\<close>

theorem utxoToInput_pubkey_witness:
  "utxoToInput bitcoinjs (sample_utxo P2TR ''5120b84a'' None) =
     Inl (TxBuildError MISSING_PUBKEY (Some ''tb1qhp9fh9qsfeyh0yhewgu27ndqhs5qlrqwau28m7'')) \<and>
   utxoToInput bitcoinjs (sample_utxo P2SH_P2WPKH ''a914b84a'' (Some [])) =
     Inl (TxBuildError MISSING_PUBKEY (Some ''tb1qhp9fh9qsfeyh0yhewgu27ndqhs5qlrqwau28m7'')) \<and>
   (\<exists>i. utxoToInput bitcoinjs (sample_utxo P2TR ''5120b84a'' (Some sample_pubkey)) = Inr i \<and>
        tapInternalKey (data i) =
          Some [0x79, 0xbe, 0x66, 0x7e, 0xf9, 0xdc, 0xbb, 0xac, 0x55, 0xa0, 0x62, 0x95, 0xce, 0x87,
                0x0b, 0x07, 0x02, 0x9b, 0xfc, 0xdb, 0x2d, 0xce, 0x28, 0xd9, 0x59, 0xf2, 0x81, 0x5b,
                0x16, 0xf8, 0x17, 0x98] \<and>
        redeemScript (data i) = None) \<and>
   (\<exists>i. utxoToInput bitcoinjs (sample_utxo P2SH_P2WPKH ''a914b84a'' (Some sample_pubkey)) = Inr i \<and>
        tapInternalKey (data i) = None \<and>
        redeemScript (data i) =
          Some ([0x00, 0x14] @ hash160 bitcoinjs (Buffer_from_hex sample_pubkey))) \<and>
   (\<exists>msg. utxoToInput bitcoinjs
            (sample_utxo P2SH_P2WPKH ''a914b84a'' (Some sample_pubkey_uncompressed)) =
          Inl (TypeError msg))"
  using utxoToInput_pubkey [of "sample_utxo P2TR ''5120b84a'' None" bitcoinjs]
    utxoToInput_pubkey [of "sample_utxo P2SH_P2WPKH ''a914b84a'' (Some [])" bitcoinjs]
    utxoToInput_pubkey [of "sample_utxo P2TR ''5120b84a'' (Some sample_pubkey)" bitcoinjs]
    utxoToInput_pubkey [of "sample_utxo P2SH_P2WPKH ''a914b84a'' (Some sample_pubkey)" bitcoinjs]
    utxoToInput_pubkey [of "sample_utxo P2SH_P2WPKH ''a914b84a'' (Some sample_pubkey_uncompressed)" bitcoinjs]
  by (simp add: sample_utxo_def sample_pubkey_def sample_pubkey_uncompressed_def truthy_def
      bitcoinjs_def lib_isPoint_def hexDigit_def be_nat_def EC_P_def remove0x_def startsWith_def
      toXOnly_def)

text \<open>
  C2 as stated fails: a P2SH_P2WPKH UTXO with a pubkey supplied does not always succeed.
  An uncompressed public key, and a string that is no key, make the library throw.
\<close>

theorem utxoToInput_pubkey_counterexample:
  "utxoToInput bitcoinjs (sample_utxo P2SH_P2WPKH ''a914b84a'' (Some sample_pubkey_uncompressed)) =
     Inl (TypeError ''Invalid pubkey for p2wpkh'') \<and>
   utxoToInput bitcoinjs (sample_utxo P2SH_P2WPKH ''a914b84a'' (Some ''pubkey'')) =
     Inl (TypeError ''Expected property pubkey of type isPoint'')"
  by (simp add: utxoToInput_def sample_utxo_def sample_pubkey_uncompressed_def truthy_def
      payments_p2wpkh_def bitcoinjs_def lib_isPoint_def hexDigit_def be_nat_def EC_P_def)

lemma Buffer_from_hex_0x: "Buffer_from_hex (CHR ''0'' # CHR ''x'' # s) = []"
  by (simp add: hexDigit_def)

lemma remove0x_0x: "remove0x (CHR ''0'' # CHR ''x'' # s) = s"
  by (simp add: remove0x_def startsWith_def)

lemma remove0x_plain: "\<not> startsWith s ''0x'' \<Longrightarrow> remove0x s = s"
  by (simp add: remove0x_def)

text \<open>
  C10, as the code has it: the \<^verbatim>\<open>0x\<close> prefix is stripped in the P2WPKH and P2TR branches
  only. There the script is the bytes of the unprefixed \<^verbatim>\<open>scriptPk\<close> and the internal key
  comes from the bytes of the unprefixed \<^verbatim>\<open>pubkey\<close>, with or without the prefix, and the
  UTXO is returned as it was passed. An empty \<^verbatim>\<open>pubkey\<close> is a missing one, while \<^verbatim>\<open>0x\<close>
  alone is taken as a key with no bytes. In the P2SH and P2SH_P2WPKH branches the fields
  are decoded as they are: a prefixed \<^verbatim>\<open>scriptPk\<close> gives the empty script, where the
  unprefixed one gives its bytes, and a prefixed \<^verbatim>\<open>pubkey\<close> hands the library the empty
  key.
\<close>

theorem utxoToInput_0x:
  "(utxo_addressType u = P2WPKH \<and> \<not> startsWith s ''0x'' \<longrightarrow>
      (\<forall>x \<in> {''0x'' @ s, s}.
         utxoToInput lib (u\<lparr>scriptPk := x\<rparr>) =
           Inr \<lparr>data = \<lparr>hash = txid u, index = vout u,
                        witnessUtxo = \<lparr>witness_value = utxo_value u, script = Buffer_from_hex s\<rparr>,
                        tapInternalKey = None, redeemScript = None\<rparr>,
                utxo = u\<lparr>scriptPk := x\<rparr>\<rparr>)) \<and>
   (utxo_addressType u = P2TR \<and> \<not> startsWith s ''0x'' \<and> \<not> startsWith p ''0x'' \<longrightarrow>
      (\<forall>x \<in> {''0x'' @ s, s}. \<forall>q \<in> {''0x'' @ p, p}.
         utxoToInput lib (u\<lparr>scriptPk := x, pubkey := Some q\<rparr>) =
           (if q = [] then Inl (TxBuildError MISSING_PUBKEY (Some (address u)))
            else
              Inr \<lparr>data = \<lparr>hash = txid u, index = vout u,
                           witnessUtxo = \<lparr>witness_value = utxo_value u, script = Buffer_from_hex s\<rparr>,
                           tapInternalKey = Some (toXOnly (Buffer_from_hex p)),
                           redeemScript = None\<rparr>,
                   utxo = u\<lparr>scriptPk := x, pubkey := Some q\<rparr>\<rparr>))) \<and>
   (utxo_addressType u = P2SH \<longrightarrow>
      utxoToInput lib (u\<lparr>scriptPk := ''0x'' @ s\<rparr>) =
        Inr \<lparr>data = \<lparr>hash = txid u, index = vout u,
                     witnessUtxo = \<lparr>witness_value = utxo_value u, script = []\<rparr>,
                     tapInternalKey = None, redeemScript = None\<rparr>,
             utxo = u\<lparr>scriptPk := ''0x'' @ s\<rparr>\<rparr> \<and>
      utxoToInput lib (u\<lparr>scriptPk := s\<rparr>) =
        Inr \<lparr>data = \<lparr>hash = txid u, index = vout u,
                     witnessUtxo = \<lparr>witness_value = utxo_value u, script = Buffer_from_hex s\<rparr>,
                     tapInternalKey = None, redeemScript = None\<rparr>,
             utxo = u\<lparr>scriptPk := s\<rparr>\<rparr>) \<and>
   (utxo_addressType u = P2SH_P2WPKH \<longrightarrow>
      utxoToInput lib (u\<lparr>scriptPk := ''0x'' @ s, pubkey := Some (''0x'' @ p)\<rparr>) =
        (case payments_p2wpkh lib [] networks_bitcoin of
           Inl e \<Rightarrow> Inl e
         | Inr redeemData \<Rightarrow>
             Inr \<lparr>data = \<lparr>hash = txid u, index = vout u,
                          witnessUtxo = \<lparr>witness_value = utxo_value u, script = []\<rparr>,
                          tapInternalKey = None, redeemScript = payment_output redeemData\<rparr>,
                  utxo = u\<lparr>scriptPk := ''0x'' @ s, pubkey := Some (''0x'' @ p)\<rparr>\<rparr>) \<and>
      utxoToInput lib (u\<lparr>scriptPk := s, pubkey := Some p\<rparr>) =
        (if p = [] then Inl (TxBuildError MISSING_PUBKEY (Some (address u)))
         else
           (case payments_p2wpkh lib (Buffer_from_hex p) networks_bitcoin of
              Inl e \<Rightarrow> Inl e
            | Inr redeemData \<Rightarrow>
                Inr \<lparr>data = \<lparr>hash = txid u, index = vout u,
                             witnessUtxo =
                               \<lparr>witness_value = utxo_value u, script = Buffer_from_hex s\<rparr>,
                             tapInternalKey = None, redeemScript = payment_output redeemData\<rparr>,
                     utxo = u\<lparr>scriptPk := s, pubkey := Some p\<rparr>\<rparr>)))"
  by (auto simp: utxoToInput_def truthy_def Buffer_from_hex_0x remove0x_0x remove0x_plain
      simp del: Buffer_from_hex.simps split: sum.splits)

text \<open>
  The theorem of C10 at one UTXO of each of the four types, and at a P2TR UTXO whose
  \<^verbatim>\<open>pubkey\<close> is empty.
\<close>

theorem utxoToInput_0x_witness:
  "map_sum id data (utxoToInput bitcoinjs (sample_utxo P2WPKH ''0x0014b84a'' None)) =
     Inr \<lparr>hash = ''96bccaadd3c8f59b2411e3d64ae4c1743532415f953fc4f9741a5fd7a0a34483'', index = 1,
          witnessUtxo = \<lparr>witness_value = 10000, script = [0x00, 0x14, 0xb8, 0x4a]\<rparr>,
          tapInternalKey = None, redeemScript = None\<rparr> \<and>
   map_sum id data (utxoToInput bitcoinjs (sample_utxo P2WPKH ''0014b84a'' None)) =
     Inr \<lparr>hash = ''96bccaadd3c8f59b2411e3d64ae4c1743532415f953fc4f9741a5fd7a0a34483'', index = 1,
          witnessUtxo = \<lparr>witness_value = 10000, script = [0x00, 0x14, 0xb8, 0x4a]\<rparr>,
          tapInternalKey = None, redeemScript = None\<rparr> \<and>
   map_sum id data (utxoToInput bitcoinjs
      (sample_utxo P2TR ''0x5120b84a'' (Some (''0x'' @ sample_pubkey)))) =
     Inr \<lparr>hash = ''96bccaadd3c8f59b2411e3d64ae4c1743532415f953fc4f9741a5fd7a0a34483'', index = 1,
          witnessUtxo = \<lparr>witness_value = 10000, script = [0x51, 0x20, 0xb8, 0x4a]\<rparr>,
          tapInternalKey = Some (toXOnly (Buffer_from_hex sample_pubkey)),
          redeemScript = None\<rparr> \<and>
   map_sum id data (utxoToInput bitcoinjs (sample_utxo P2TR ''5120b84a'' (Some sample_pubkey))) =
     Inr \<lparr>hash = ''96bccaadd3c8f59b2411e3d64ae4c1743532415f953fc4f9741a5fd7a0a34483'', index = 1,
          witnessUtxo = \<lparr>witness_value = 10000, script = [0x51, 0x20, 0xb8, 0x4a]\<rparr>,
          tapInternalKey = Some (toXOnly (Buffer_from_hex sample_pubkey)),
          redeemScript = None\<rparr> \<and>
   map_sum id data (utxoToInput bitcoinjs (sample_utxo P2TR ''5120b84a'' (Some []))) =
     Inl (TxBuildError MISSING_PUBKEY (Some ''tb1qhp9fh9qsfeyh0yhewgu27ndqhs5qlrqwau28m7'')) \<and>
   map_sum id (script \<circ> witnessUtxo \<circ> data)
      (utxoToInput bitcoinjs (sample_utxo P2SH ''0xa914b84a'' None)) = Inr [] \<and>
   map_sum id (script \<circ> witnessUtxo \<circ> data)
      (utxoToInput bitcoinjs (sample_utxo P2SH ''a914b84a'' None)) = Inr [0xa9, 0x14, 0xb8, 0x4a] \<and>
   map_sum id data (utxoToInput bitcoinjs
      (sample_utxo P2SH_P2WPKH ''0xa914b84a'' (Some (''0x'' @ sample_pubkey)))) =
     Inl (TypeError ''Expected property pubkey of type isPoint'') \<and>
   map_sum id data (utxoToInput bitcoinjs
      (sample_utxo P2SH_P2WPKH ''a914b84a'' (Some sample_pubkey))) =
     Inr \<lparr>hash = ''96bccaadd3c8f59b2411e3d64ae4c1743532415f953fc4f9741a5fd7a0a34483'', index = 1,
          witnessUtxo = \<lparr>witness_value = 10000, script = [0xa9, 0x14, 0xb8, 0x4a]\<rparr>,
          tapInternalKey = None,
          redeemScript = Some ([0x00, 0x14] @ hash160 bitcoinjs (Buffer_from_hex sample_pubkey))\<rparr>"
  using utxoToInput_0x [where u = "sample_utxo P2WPKH [] None" and s = "''0014b84a''"
      and p = sample_pubkey and lib = bitcoinjs]
    utxoToInput_0x [where u = "sample_utxo P2TR [] None" and s = "''5120b84a''"
      and p = sample_pubkey and lib = bitcoinjs]
    utxoToInput_0x [where u = "sample_utxo P2TR [] None" and s = "''5120b84a''"
      and p = "[]" and lib = bitcoinjs]
    utxoToInput_0x [where u = "sample_utxo P2SH [] None" and s = "''a914b84a''"
      and p = sample_pubkey and lib = bitcoinjs]
    utxoToInput_0x [where u = "sample_utxo P2SH_P2WPKH [] None" and s = "''a914b84a''"
      and p = sample_pubkey and lib = bitcoinjs]
  by (simp add: sample_utxo_def sample_pubkey_def startsWith_def payments_p2wpkh_def
      bitcoinjs_def lib_isPoint_def hexDigit_def be_nat_def EC_P_def)

text \<open>
  C10 as stated fails for a P2TR UTXO with an empty \<^verbatim>\<open>pubkey\<close>: the unprefixed form is
  rejected as a missing key, the prefixed form \<^verbatim>\<open>0x\<close> gives an input whose internal key has
  no bytes.
\<close>

theorem utxoToInput_0x_counterexample:
  "utxoToInput bitcoinjs
      (taproot_utxo ''96bccaadd3c8f59b2411e3d64ae4c1743532415f953fc4f9741a5fd7a0a34483'' 1
         (Some [])) =
     Inl (TxBuildError MISSING_PUBKEY
            (Some ''bc1pmfr3p9j00pfxjh0zmgp99y8zftmd3s5pmedqhyptwy6lm87hf5sspknck9'')) \<and>
   map_sum id data
     (utxoToInput bitcoinjs
        ((taproot_utxo ''96bccaadd3c8f59b2411e3d64ae4c1743532415f953fc4f9741a5fd7a0a34483'' 1
            (Some ''0x''))
         \<lparr>scriptPk :=
            ''0x5120da4710964f7852695de2da025290e24af6d8c281de5a0b902b7135fd9fd74d21''\<rparr>)) =
     Inr \<lparr>hash = ''96bccaadd3c8f59b2411e3d64ae4c1743532415f953fc4f9741a5fd7a0a34483'', index = 1,
          witnessUtxo = \<lparr>witness_value = 546, script = [0x51, 0x20] @ sample_output_key\<rparr>,
          tapInternalKey = Some [], redeemScript = None\<rparr>"
  by (simp add: utxoToInput_def taproot_utxo_def truthy_def remove0x_def startsWith_def
      toXOnly_def sample_output_key_def hexDigit_def)

section \<open>Filling in the pubkey\<close>

text \<open>
  C8: \<^verbatim>\<open>fillUtxoPubkey\<close> is idempotent: applying it to its own result, with the same
  map and options, changes nothing; where the first application throws, so does the
  composition. This holds whatever \<^verbatim>\<open>isP2trScript\<close> computes.
\<close>

theorem fillUtxoPubkey_idempotent:
  "(case fillUtxoPubkey isP2tr u m opts of
      Inl e \<Rightarrow> Inl e
    | Inr u' \<Rightarrow> fillUtxoPubkey isP2tr u' m opts) = fillUtxoPubkey isP2tr u m opts"
  by (auto simp: fillUtxoPubkey_def Let_def truthy_def split: sum.splits option.splits if_splits)

section \<open>Preparing a batch\<close>

lemma fillUtxoPubkey_keeps:
  "fillUtxoPubkey isP2tr u m opts = Inr u' \<Longrightarrow> txid u' = txid u \<and> vout u' = vout u"
  by (auto simp: fillUtxoPubkey_def Let_def split: sum.splits if_splits)

lemma fillAll_keeps:
  "fillAll isP2tr m opts us = Inr us' \<Longrightarrow>
     map txid us' = map txid us \<and> map vout us' = map vout us"
proof (induction us arbitrary: us')
  case Nil
  then show ?case by simp
next
  case (Cons u us)
  then show ?case
    by (auto split: sum.splits dest: fillUtxoPubkey_keeps)
qed

lemma firstRejection_member:
  "firstRejection settle i rs = Some (j, e) \<Longrightarrow> Some e \<in> set rs"
proof (induction rs arbitrary: i j e)
  case Nil
  then show ?case by simp
next
  case (Cons r rs)
  then show ?case
    by (fastforce split: option.splits prod.splits if_splits)
qed

lemma firstRejection_None:
  "firstRejection settle i rs = None \<longleftrightarrow> (\<forall>r \<in> set rs. r = None)"
  by (induction rs arbitrary: i) (auto split: option.splits prod.splits)

lemma Promise_all_member: "Promise_all settle rs = Some e \<Longrightarrow> Some e \<in> set rs"
  by (auto simp: Promise_all_def dest: firstRejection_member)

lemma Promise_all_None: "Promise_all settle rs = None \<longleftrightarrow> (\<forall>r \<in> set rs. r = None)"
  by (simp add: Promise_all_def firstRejection_None)

lemma checkConfirmed_cong:
  "txid u' = txid u \<Longrightarrow> vout u' = vout u \<Longrightarrow> checkConfirmed src u' = checkConfirmed src u"
  by (simp add: checkConfirmed_def split: sum.split)

lemma map_checkConfirmed_keeps:
  assumes "map txid us' = map txid us" and "map vout us' = map vout us"
  shows "map (checkConfirmed src) us' = map (checkConfirmed src) us"
proof -
  have len: "length us' = length us"
    using assms(1) by (metis length_map)
  show ?thesis
  proof (rule nth_equalityI)
    show "length (map (checkConfirmed src) us') = length (map (checkConfirmed src) us)"
      using len by simp
  next
    fix i assume "i < length (map (checkConfirmed src) us')"
    then have i: "i < length us'" "i < length us" using len by simp_all
    have "txid (us' ! i) = txid (us ! i)"
      using assms(1) i by (metis nth_map)
    moreover have "vout (us' ! i) = vout (us ! i)"
      using assms(2) i by (metis nth_map)
    ultimately have "checkConfirmed src (us' ! i) = checkConfirmed src (us ! i)"
      by (rule checkConfirmed_cong)
    then show "map (checkConfirmed src) us' ! i = map (checkConfirmed src) us ! i"
      using i by simp
  qed
qed

lemma prepare_fails:
  assumes rc: "requireConfirmed props = Some True"
    and u: "u \<in> set (utxos props)"
    and unconf: "isTransactionConfirmed (source props) (txid u) = Inr False"
  shows "\<exists>e. prepareUtxoInputs isP2tr settle props = Inl e"
proof -
  let ?m = "case pubkeyMap props of None \<Rightarrow> Map.empty | Some pm \<Rightarrow> pm"
  let ?f = "fillAll isP2tr ?m (Some \<lparr>options_requirePubkey = requirePubkey props\<rparr>) (utxos props)"
  show ?thesis
  proof (cases ?f)
    case (Inl e)
    then show ?thesis by (simp add: prepareUtxoInputs_def)
  next
    case (Inr us)
    then have eq: "map (checkConfirmed (source props)) us = map (checkConfirmed (source props)) (utxos props)"
      using fillAll_keeps map_checkConfirmed_keeps by blast
    have "checkConfirmed (source props) u \<noteq> None"
      using unconf by (simp add: checkConfirmed_def)
    then have "\<not> (\<forall>r \<in> set (map (checkConfirmed (source props)) us). r = None)"
      using u eq by auto
    then obtain e where "Promise_all settle (map (checkConfirmed (source props)) us) = Some e"
      using Promise_all_None [of settle "map (checkConfirmed (source props)) us"] by auto
    then show ?thesis using Inr rc by (simp add: prepareUtxoInputs_def)
  qed
qed

lemma prepare_unconfirmed:
  assumes rc: "requireConfirmed props = Some True"
    and u: "u \<in> set (utxos props)"
    and unconf: "isTransactionConfirmed (source props) (txid u) = Inr False"
    and fill: "fillAll isP2tr (case pubkeyMap props of None \<Rightarrow> Map.empty | Some pm \<Rightarrow> pm)
                 (Some \<lparr>options_requirePubkey = requirePubkey props\<rparr>) (utxos props) = Inr us"
    and noerr: "\<forall>v \<in> set (utxos props). \<forall>e. isTransactionConfirmed (source props) (txid v) \<noteq> Inl e"
  shows "\<exists>v \<in> set (utxos props).
           isTransactionConfirmed (source props) (txid v) = Inr False \<and>
           prepareUtxoInputs isP2tr settle props = Inl (unconfirmedError v)"
proof -
  have eq: "map (checkConfirmed (source props)) us = map (checkConfirmed (source props)) (utxos props)"
    using fill fillAll_keeps map_checkConfirmed_keeps by blast
  obtain e where e: "prepareUtxoInputs isP2tr settle props = Inl e"
    using prepare_fails [OF rc u unconf] by blast
  then have "Promise_all settle (map (checkConfirmed (source props)) us) = Some e"
    using fill rc by (auto simp: prepareUtxoInputs_def split: option.splits)
  then have "Some e \<in> set (map (checkConfirmed (source props)) (utxos props))"
    using Promise_all_member eq by metis
  then obtain v where v: "v \<in> set (utxos props)" "checkConfirmed (source props) v = Some e"
    by auto
  then have "isTransactionConfirmed (source props) (txid v) = Inr False \<and> e = unconfirmedError v"
    using noerr by (auto simp: checkConfirmed_def unconfirmedError_def split: sum.splits if_splits)
  then show ?thesis using v e by blast
qed

text \<open>
  C7, as the code has it: with \<^verbatim>\<open>requireConfirmed\<close> set and a UTXO of the batch
  reported unconfirmed, the call returns no list, under every schedule. When filling in
  the pubkeys does not fail and the source throws for no UTXO, the error is
  \<^verbatim>\<open>UNCONFIRMED_UTXO\<close> with the txid and vout of a UTXO that the source reports
  unconfirmed.
\<close>

theorem prepareUtxoInputs_unconfirmed:
  assumes "requireConfirmed props = Some True"
    and "u \<in> set (utxos props)"
    and "isTransactionConfirmed (source props) (txid u) = Inr False"
  shows "(\<exists>e. prepareUtxoInputs isP2tr settle props = Inl e) \<and>
    ((\<exists>us. fillAll isP2tr (case pubkeyMap props of None \<Rightarrow> Map.empty | Some pm \<Rightarrow> pm)
             (Some \<lparr>options_requirePubkey = requirePubkey props\<rparr>) (utxos props) = Inr us) \<and>
     (\<forall>v \<in> set (utxos props). \<forall>e. isTransactionConfirmed (source props) (txid v) \<noteq> Inl e) \<longrightarrow>
       (\<exists>v \<in> set (utxos props).
          isTransactionConfirmed (source props) (txid v) = Inr False \<and>
          prepareUtxoInputs isP2tr settle props = Inl (unconfirmedError v)))"
  using prepare_fails [OF assms] prepare_unconfirmed [OF assms] by blast

text \<open>The theorem of C7 at a batch of two UTXOs, the second one unconfirmed.\<close>

theorem prepareUtxoInputs_unconfirmed_witness:
  "prepareUtxoInputs isP2trScript (\<lambda>i. i)
     \<lparr>utxos = [taproot_utxo ''aa'' 0 (Some sample_pubkey), taproot_utxo ''bb'' 3 None],
      source = unconfirmed_source [''bb''], requirePubkey = None,
      requireConfirmed = Some True, pubkeyMap = None\<rparr> =
   Inl (TxBuildError UNCONFIRMED_UTXO (Some ''hash: bb, index: 3''))"
  using prepareUtxoInputs_unconfirmed
    [of "\<lparr>utxos = [taproot_utxo ''aa'' 0 (Some sample_pubkey), taproot_utxo ''bb'' 3 None],
          source = unconfirmed_source [''bb''], requirePubkey = None,
          requireConfirmed = Some True, pubkeyMap = None\<rparr>"
        "taproot_utxo ''bb'' 3 None" isP2trScript "\<lambda>i. i"]
  by (simp add: taproot_utxo_def unconfirmed_source_def unconfirmedError_def
      prepareUtxoInputs_def Promise_all_def checkConfirmed_def sample_pubkey_def
      fillUtxoPubkey_def isP2trScript_def remove0x_def startsWith_def hexDigit_def truthy_def
      numberToString.simps)

text \<open>
  C7 as stated fails. With \<^verbatim>\<open>requirePubkey\<close> set, a taproot UTXO without a pubkey
  makes the call fail with \<^verbatim>\<open>MISSING_PUBKEY\<close> before any confirmation check, although
  the source reports it unconfirmed. And of two unconfirmed UTXOs the error names the
  one whose check settles first, not the other.
\<close>

theorem prepareUtxoInputs_unconfirmed_counterexample:
  "isTransactionConfirmed (unconfirmed_source [''aa'']) (txid (taproot_utxo ''aa'' 0 None)) =
     Inr False \<and>
   prepareUtxoInputs isP2trScript (\<lambda>i. i)
     \<lparr>utxos = [taproot_utxo ''aa'' 0 None], source = unconfirmed_source [''aa''],
      requirePubkey = Some True, requireConfirmed = Some True, pubkeyMap = None\<rparr> =
   Inl (TxBuildError MISSING_PUBKEY
          (Some ''bc1pmfr3p9j00pfxjh0zmgp99y8zftmd3s5pmedqhyptwy6lm87hf5sspknck9'')) \<and>
   isTransactionConfirmed (unconfirmed_source [''aa'', ''bb''])
     (txid (taproot_utxo ''bb'' 3 (Some sample_pubkey))) = Inr False \<and>
   prepareUtxoInputs isP2trScript (\<lambda>i. i)
     \<lparr>utxos = [taproot_utxo ''aa'' 0 (Some sample_pubkey),
               taproot_utxo ''bb'' 3 (Some sample_pubkey)],
      source = unconfirmed_source [''aa'', ''bb''], requirePubkey = Some True,
      requireConfirmed = Some True, pubkeyMap = None\<rparr> =
   Inl (TxBuildError UNCONFIRMED_UTXO (Some ''hash: aa, index: 0''))"
  by (simp add: prepareUtxoInputs_def Promise_all_def checkConfirmed_def taproot_utxo_def
      unconfirmed_source_def fillUtxoPubkey_def isP2trScript_def remove0x_def startsWith_def
      hexDigit_def truthy_def sample_pubkey_def numberToString.simps)

end
